theory Spec2Isabelle
  imports Complex_Main "HOL-Library.AList"
begin

section \<open>Python values and the built-in operations the client relies on\<close>

text \<open>
  The values that travel through \<^verbatim>\<open>moya/agents/remote_agent.py\<close> are the ones
  \<^verbatim>\<open>json.loads\<close> and \<^verbatim>\<open>response.json()\<close> produce: \<^verbatim>\<open>None\<close>, booleans,
  integers, floats, strings, lists and dictionaries. A string is a list of code points;
  \<^typ>\<open>char\<close> offers the code points below 256. A dictionary is an association list in
  insertion order, looked up with \<^const>\<open>map_of\<close>.
\<close>

datatype pyval =
    PNone
  | PBool bool
  | PInt int
  | PFloat real
  | PStr string
  | PList "pyval list"
  | PDict "(string \<times> pyval) list"

text \<open>
  Exceptions deriving from \<^verbatim>\<open>Exception\<close>. \<^verbatim>\<open>HTTPError\<close> carries the status
  code of \<^verbatim>\<open>e.response\<close> and its message; every other constructor carries the text
  that \<^verbatim>\<open>str(e)\<close> gives. \<^verbatim>\<open>OtherException\<close> stands for any further class
  (connection errors, timeouts, TLS failures, errors raised inside a tool). The
  messages of the interpreter's own errors are worded as CPython 3.12 words them.
  Signals outside \<^verbatim>\<open>Exception\<close> (\<^verbatim>\<open>KeyboardInterrupt\<close>, \<^verbatim>\<open>GeneratorExit\<close>) are not
  part of the model.
\<close>

datatype exn =
    HTTPError int string
  | JSONDecodeError string
  | AttributeError string
  | TypeError string
  | KeyError string
  | ValueError string
  | OtherException string

fun str_exn :: "exn \<Rightarrow> string" where
  "str_exn (HTTPError code msg) = msg"
| "str_exn (JSONDecodeError msg) = msg"
| "str_exn (AttributeError msg) = msg"
| "str_exn (TypeError msg) = msg"
| "str_exn (KeyError msg) = msg"
| "str_exn (ValueError msg) = msg"
| "str_exn (OtherException msg) = msg"

fun type_name :: "pyval \<Rightarrow> string" where
  "type_name PNone = ''NoneType''"
| "type_name (PBool b) = ''bool''"
| "type_name (PInt i) = ''int''"
| "type_name (PFloat r) = ''float''"
| "type_name (PStr s) = ''str''"
| "type_name (PList xs) = ''list''"
| "type_name (PDict kvs) = ''dict''"

text \<open>A name between apostrophes, as the interpreter prints it in its messages.\<close>

definition quoted :: "string \<Rightarrow> string" where
  "quoted s = [CHR 0x27] @ s @ [CHR 0x27]"

text \<open>Truth value of an object, as \<^verbatim>\<open>if x:\<close> tests it.\<close>

fun py_truthy :: "pyval \<Rightarrow> bool" where
  "py_truthy PNone = False"
| "py_truthy (PBool b) = b"
| "py_truthy (PInt i) = (i \<noteq> 0)"
| "py_truthy (PFloat r) = (r \<noteq> 0)"
| "py_truthy (PStr s) = (s \<noteq> [])"
| "py_truthy (PList xs) = (xs \<noteq> [])"
| "py_truthy (PDict kvs) = (kvs \<noteq> [])"

text \<open>\<^verbatim>\<open>x.get(key, default)\<close>: only a dictionary has the method.\<close>

fun py_get :: "pyval \<Rightarrow> string \<Rightarrow> pyval \<Rightarrow> exn + pyval" where
  "py_get (PDict kvs) key dflt = Inr (case map_of kvs key of None \<Rightarrow> dflt | Some v \<Rightarrow> v)"
| "py_get v key dflt =
     Inl (AttributeError (quoted (type_name v) @ '' object has no attribute '' @ quoted ''get''))"

fun contains_substr :: "string \<Rightarrow> string \<Rightarrow> bool" where
  "contains_substr sub [] = (sub = [])"
| "contains_substr sub (c # cs) = (take (length sub) (c # cs) = sub \<or> contains_substr sub cs)"

text \<open>
  \<^verbatim>\<open>key in x\<close> for a string key: key test on a dictionary, membership in a list,
  substring test on a string, \<^verbatim>\<open>TypeError\<close> on anything else.
\<close>

fun py_contains :: "string \<Rightarrow> pyval \<Rightarrow> exn + bool" where
  "py_contains key (PDict kvs) = Inr (map_of kvs key \<noteq> None)"
| "py_contains key (PList xs) = Inr (PStr key \<in> set xs)"
| "py_contains key (PStr s) = Inr (contains_substr key s)"
| "py_contains key v =
     Inl (TypeError (''argument of type '' @ quoted (type_name v) @ '' is not iterable''))"

text \<open>\<^verbatim>\<open>x[key]\<close> for a string key.\<close>

fun py_getitem :: "pyval \<Rightarrow> string \<Rightarrow> exn + pyval" where
  "py_getitem (PDict kvs) key =
     (case map_of kvs key of None \<Rightarrow> Inl (KeyError (quoted key)) | Some v \<Rightarrow> Inr v)"
| "py_getitem (PList xs) key =
     Inl (TypeError ''list indices must be integers or slices, not str'')"
| "py_getitem (PStr s) key =
     Inl (TypeError (''string indices must be integers, not '' @ quoted ''str''))"
| "py_getitem v key =
     Inl (TypeError (quoted (type_name v) @ '' object is not subscriptable''))"

text \<open>
  The elements an iteration over the object delivers: the items of a list, the
  one-character strings of a string, the keys of a dictionary.
\<close>

fun py_iter :: "pyval \<Rightarrow> exn + pyval list" where
  "py_iter (PList xs) = Inr xs"
| "py_iter (PStr s) = Inr (map (\<lambda>c. PStr [c]) s)"
| "py_iter (PDict kvs) = Inr (map (\<lambda>kv. PStr (fst kv)) kvs)"
| "py_iter v = Inl (TypeError (quoted (type_name v) @ '' object is not iterable''))"

text \<open>
  \<^verbatim>\<open>xs.extend(v)\<close>: the argument is turned into an iterator before the list is
  touched, so a failing call leaves the list as it was.
\<close>

definition list_extend :: "pyval list \<Rightarrow> pyval \<Rightarrow> (exn + unit) \<times> pyval list" where
  "list_extend xs v = (case py_iter v of Inl e \<Rightarrow> (Inl e, xs) | Inr ys \<Rightarrow> (Inr (), xs @ ys))"

text \<open>\<^verbatim>\<open>text += v\<close> for a string \<^verbatim>\<open>text\<close>.\<close>

fun str_iadd :: "string \<Rightarrow> pyval \<Rightarrow> exn + string" where
  "str_iadd text (PStr s) = Inr (text @ s)"
| "str_iadd text v =
     Inl (TypeError (''can only concatenate str (not '' @ [CHR 0x22] @ type_name v @ [CHR 0x22]
                      @ '') to str''))"

definition startswith :: "string \<Rightarrow> string \<Rightarrow> bool" where
  "startswith s prefix = (take (length prefix) s = prefix)"

text \<open>The code points below 256 for which \<^verbatim>\<open>str.isspace\<close> holds.\<close>

definition isspace :: "char \<Rightarrow> bool" where
  "isspace c = (c \<in> set [CHR 0x09, CHR 0x0A, CHR 0x0B, CHR 0x0C, CHR 0x0D,
                          CHR 0x1C, CHR 0x1D, CHR 0x1E, CHR 0x1F, CHR 0x20,
                          CHR 0x85, CHR 0xA0])"

definition strip :: "string \<Rightarrow> string" where
  "strip s = rev (dropWhile isspace (rev (dropWhile isspace s)))"

text \<open>\<^verbatim>\<open>s.rstrip(c)\<close> for a one-character argument.\<close>

definition rstrip :: "string \<Rightarrow> char \<Rightarrow> string" where
  "rstrip s c = rev (dropWhile (\<lambda>x. x = c) (rev s))"

text \<open>Decimal rendering of an integer, as \<^verbatim>\<open>str\<close> and f-strings give it.\<close>

fun show_nat :: "nat \<Rightarrow> string" where
  "show_nat n =
     (if n < 10 then [''0123456789'' ! n]
      else show_nat (n div 10) @ [''0123456789'' ! (n mod 10)])"

declare show_nat.simps [simp del]

definition show_int :: "int \<Rightarrow> string" where
  "show_int i = (if i < 0 then ''-'' @ show_nat (nat (- i)) else show_nat (nat i))"

section \<open>The collaborators outside the module\<close>

text \<open>
  A response of the HTTP library, reduced to what the client reads: the status code, the
  reason phrase and URL that \<^verbatim>\<open>raise_for_status\<close> puts into its message, the outcome
  of \<^verbatim>\<open>response.json()\<close>, and what \<^verbatim>\<open>iter_lines(decode_unicode=True)\<close> delivers:
  the decoded lines in order, where an \<^term>\<open>Inl e\<close> item is the iterator raising
  \<open>e\<close> at that point.
\<close>

record response =
  status_code :: int
  reason :: string
  url :: string
  json :: "exn + pyval"
  iter_lines :: "(exn + string) list"

text \<open>\<^verbatim>\<open>response.raise_for_status()\<close> of the HTTP library.\<close>

definition raise_for_status :: "response \<Rightarrow> exn + unit" where
  "raise_for_status r =
     (if 400 \<le> status_code r \<and> status_code r < 500 then
        Inl (HTTPError (status_code r)
              (show_int (status_code r) @ '' Client Error: '' @ reason r @ '' for url: '' @ url r))
      else if 500 \<le> status_code r \<and> status_code r < 600 then
        Inl (HTTPError (status_code r)
              (show_int (status_code r) @ '' Server Error: '' @ reason r @ '' for url: '' @ url r))
      else Inr ())"

text \<open>The \<^verbatim>\<open>requests.Session\<close> of the agent: its default headers and \<^verbatim>\<open>verify\<close>.\<close>

record session =
  headers :: "(string \<times> string) list"
  verify :: bool

text \<open>
  What lies outside the module is a parameter of the model:
  \<^item> \<open>http_post\<close>: \<^verbatim>\<open>session.post(url, json=data, stream=..., headers=...)\<close>, which
    raises (a connection error, a timeout, a TLS failure, an unserialisable payload) or
    returns a response;
  \<^item> \<open>json_loads\<close>: \<^verbatim>\<open>json.loads\<close> on a string, which returns the decoded value
    or raises: \<^verbatim>\<open>json.JSONDecodeError\<close> on a text that is not JSON, but also
    \<^verbatim>\<open>ValueError\<close> on an integer literal beyond the interpreter's digit limit and
    \<^verbatim>\<open>RecursionError\<close> on nesting that is too deep;
  \<^item> \<open>json_dumps\<close>: \<^verbatim>\<open>json.dumps\<close> on a decoded value;
  \<^item> \<open>py_repr\<close>: the text an f-string gives for a float, a list or a dictionary.
\<close>

record world =
  http_post :: "session \<Rightarrow> string \<Rightarrow> (string \<times> pyval) list \<Rightarrow> bool
                \<Rightarrow> (string \<times> string) list \<Rightarrow> exn + response"
  json_loads :: "string \<Rightarrow> exn + pyval"
  json_dumps :: "pyval \<Rightarrow> string"
  py_repr :: "pyval \<Rightarrow> string"

text \<open>\<^verbatim>\<open>json.loads(v)\<close> on any value: only a string is accepted.\<close>

definition json_loads_value :: "world \<Rightarrow> pyval \<Rightarrow> exn + pyval" where
  "json_loads_value w v =
     (case v of
        PStr s \<Rightarrow> json_loads w s
      | _ \<Rightarrow> Inl (TypeError (''the JSON object must be str, bytes or bytearray, not ''
                              @ type_name v)))"

text \<open>The text \<^verbatim>\<open>{name}\<close> contributes to an f-string.\<close>

definition py_str :: "world \<Rightarrow> pyval \<Rightarrow> string" where
  "py_str w v =
     (case v of
        PStr s \<Rightarrow> s
      | PNone \<Rightarrow> ''None''
      | PBool b \<Rightarrow> (if b then ''True'' else ''False'')
      | PInt i \<Rightarrow> show_int i
      | _ \<Rightarrow> py_repr w v)"

text \<open>
  A tool of the registry is its \<^verbatim>\<open>function\<close> attribute, called with keyword arguments;
  the registry is its \<^verbatim>\<open>get_tool\<close> method.
\<close>

type_synonym tool = "(string \<times> pyval) list \<Rightarrow> exn + pyval"

type_synonym tool_registry = "pyval \<Rightarrow> tool option"

section \<open>RemoteAgent\<close>

record remote_agent_config =
  cfg_agent_name :: string
  cfg_system_prompt :: string
  cfg_tool_registry :: "tool_registry option"
  cfg_base_url :: "string option"
  cfg_verify_ssl :: bool
  cfg_auth_token :: "string option"

text \<open>
  The instance. \<open>agent_name\<close> and \<open>tool_registry\<close> are the attributes the base class
  \<^verbatim>\<open>Agent\<close> takes from the configuration.
\<close>

record remote_agent =
  agent_name :: string
  tool_registry :: "tool_registry option"
  base_url :: string
  system_prompt :: string
  session :: session
  tool_call_logs :: "pyval list"

text \<open>
  \<^verbatim>\<open>RemoteAgent.__init__\<close>. The test \<^verbatim>\<open>not config.base_url\<close> holds for \<^verbatim>\<open>None\<close>
  and for the empty string; \<^verbatim>\<open>if config.auth_token\<close> fails for both.
\<close>

definition RemoteAgent_init :: "remote_agent_config \<Rightarrow> exn + remote_agent" where
  "RemoteAgent_init config =
     (case cfg_base_url config of
        None \<Rightarrow> Inl (ValueError ''RemoteAgent base URL is required.'')
      | Some u \<Rightarrow>
          if u = [] then Inl (ValueError ''RemoteAgent base URL is required.'')
          else
            Inr \<lparr> agent_name = cfg_agent_name config,
                  tool_registry = cfg_tool_registry config,
                  base_url = rstrip u CHR ''/'',
                  system_prompt = cfg_system_prompt config,
                  session = \<lparr> headers =
                                (case cfg_auth_token config of
                                   None \<Rightarrow> []
                                 | Some token \<Rightarrow>
                                     if token = [] then []
                                     else [(''Authorization'', ''Bearer '' @ token)]),
                              verify = cfg_verify_ssl config \<rparr>,
                  tool_call_logs = [] \<rparr>)"

text \<open>
  The payload \<^verbatim>\<open>{"message": message, "thread_id": kwargs.get("thread_id"), **kwargs}\<close>.
\<close>

definition request_data :: "string \<Rightarrow> (string \<times> pyval) list \<Rightarrow> (string \<times> pyval) list" where
  "request_data message kwargs =
     fold (\<lambda>kv. AList.update (fst kv) (snd kv)) kwargs
       [(''message'', PStr message),
        (''thread_id'', (case map_of kwargs ''thread_id'' of None \<Rightarrow> PNone | Some v \<Rightarrow> v))]"

definition chat_endpoint :: "remote_agent \<Rightarrow> string" where
  "chat_endpoint a = base_url a @ ''/chat''"

definition stream_endpoint :: "remote_agent \<Rightarrow> string" where
  "stream_endpoint a = base_url a @ ''/chat/stream''"

subsection \<open>handle_message\<close>

text \<open>
  The \<^verbatim>\<open>try\<close> block of \<^verbatim>\<open>handle_message\<close>: \<^term>\<open>Inl e\<close> when a statement raises
  \<open>e\<close>, \<^term>\<open>Inr v\<close> when \<^verbatim>\<open>return res_text\<close> is reached, with the agent as the
  block leaves it.
\<close>

definition handle_message_try ::
  "world \<Rightarrow> remote_agent \<Rightarrow> string \<Rightarrow> (string \<times> pyval) list \<Rightarrow> (exn + pyval) \<times> remote_agent" where
  "handle_message_try w a message kwargs =
     (case http_post w (session a) (chat_endpoint a) (request_data message kwargs) False [] of
        Inl e \<Rightarrow> (Inl e, a)
      | Inr response \<Rightarrow>
          (case raise_for_status response of
             Inl e \<Rightarrow> (Inl e, a)
           | Inr _ \<Rightarrow>
               (case json response of
                  Inl e \<Rightarrow> (Inl e, a)
                | Inr json_response \<Rightarrow>
                    (case py_get json_response ''response'' (PStr []) of
                       Inl e \<Rightarrow> (Inl e, a)
                     | Inr res_text \<Rightarrow>
                         (case py_get json_response ''tool_calls'' (PList []) of
                            Inl e \<Rightarrow> (Inl e, a)
                          | Inr tool_calls \<Rightarrow>
                              if py_truthy tool_calls then
                                (case list_extend (tool_call_logs a) tool_calls of
                                   (Inl e, logs) \<Rightarrow> (Inl e, a\<lparr>tool_call_logs := logs\<rparr>)
                                 | (Inr _, logs) \<Rightarrow> (Inr res_text, a\<lparr>tool_call_logs := logs\<rparr>))
                              else (Inr res_text, a))))))"

definition error_message :: "exn \<Rightarrow> string" where
  "error_message e = ''[RemoteAgent error: '' @ str_exn e @ '']''"

definition auth_failed :: string where
  "auth_failed = ''[RemoteAgent error: Authentication failed]''"

text \<open>The two \<^verbatim>\<open>except\<close> clauses of \<^verbatim>\<open>handle_message\<close>.\<close>

fun handle_message_except :: "exn \<Rightarrow> exn + pyval" where
  "handle_message_except (HTTPError code msg) =
     (if code = 401 then Inr (PStr auth_failed)
      else Inr (PStr (error_message (HTTPError code msg))))"
| "handle_message_except e = Inr (PStr (error_message e))"

text \<open>
  \<^verbatim>\<open>handle_message\<close>: \<^term>\<open>Inr v\<close> is the value returned, \<^term>\<open>Inl e\<close> an exception
  leaving the method.
\<close>

definition handle_message ::
  "world \<Rightarrow> remote_agent \<Rightarrow> string \<Rightarrow> (string \<times> pyval) list \<Rightarrow> (exn + pyval) \<times> remote_agent" where
  "handle_message w a message kwargs =
     (case handle_message_try w a message kwargs of
        (Inr v, a') \<Rightarrow> (Inr v, a')
      | (Inl e, a') \<Rightarrow> (handle_message_except e, a'))"

subsection \<open>handle_message_stream\<close>

text \<open>
  The body of \<^verbatim>\<open>if content and content != "done":\<close> up to the \<^verbatim>\<open>yield\<close>: the inner
  \<^verbatim>\<open>try\<close> with its \<^verbatim>\<open>except json.JSONDecodeError\<close>. The result is the new
  \<^verbatim>\<open>current_text\<close>, or the exception that leaves the inner \<^verbatim>\<open>try\<close>, and the log.
\<close>

definition process_chunk ::
  "world \<Rightarrow> string \<Rightarrow> string \<Rightarrow> pyval list \<Rightarrow> (exn + string) \<times> pyval list" where
  "process_chunk w content current_text logs =
     (case json_loads w content of
        Inl (JSONDecodeError msg) \<Rightarrow> (Inr (current_text @ content), logs)
      | Inl e \<Rightarrow> (Inl e, logs)
      | Inr data_chunk \<Rightarrow>
          (case py_contains ''tool_calls'' data_chunk of
             Inl e \<Rightarrow> (Inl e, logs)
           | Inr True \<Rightarrow>
               (case py_getitem data_chunk ''tool_calls'' of
                  Inl e \<Rightarrow> (Inl e, logs)
                | Inr tool_calls \<Rightarrow>
                    (case list_extend logs tool_calls of
                       (Inl e, logs') \<Rightarrow> (Inl e, logs')
                     | (Inr _, logs') \<Rightarrow> (Inr current_text, logs')))
           | Inr False \<Rightarrow>
               (case py_get data_chunk ''content'' (PStr []) of
                  Inl e \<Rightarrow> (Inl e, logs)
                | Inr v \<Rightarrow>
                    (case str_iadd current_text v of
                       Inl e \<Rightarrow> (Inl e, logs)
                     | Inr current_text' \<Rightarrow> (Inr current_text', logs)))))"

text \<open>
  The \<^verbatim>\<open>for line in response.iter_lines(...)\<close> loop, run to the end by a consumer that
  takes every chunk. The result is the chunks yielded in order, then either the
  exception that ended the loop or \<^verbatim>\<open>current_text\<close> at its normal end, and the log.
\<close>

fun stream_loop ::
  "world \<Rightarrow> (exn + string) list \<Rightarrow> string \<Rightarrow> pyval list
    \<Rightarrow> string list \<times> (exn + string) \<times> pyval list" where
  "stream_loop w [] current_text logs = ([], Inr current_text, logs)"
| "stream_loop w (Inl e # rest) current_text logs = ([], Inl e, logs)"
| "stream_loop w (Inr line # rest) current_text logs =
     (if line \<noteq> [] \<and> startswith line ''data:'' then
        (let content = strip (drop 5 line) in
         if content \<noteq> [] \<and> content \<noteq> ''done'' then
           (case process_chunk w content current_text logs of
              (Inl e, logs') \<Rightarrow> ([], Inl e, logs')
            | (Inr current_text', logs') \<Rightarrow>
                (case stream_loop w rest [] logs' of
                   (chunks, r) \<Rightarrow> ((current_text' @ '' '') # chunks, r)))
         else stream_loop w rest current_text logs)
      else stream_loop w rest current_text logs)"

text \<open>
  The outer \<^verbatim>\<open>try\<close> block of \<^verbatim>\<open>handle_message_stream\<close>: the chunks it yields, the
  exception that leaves it (\<^term>\<open>None\<close> when it runs to its end), and the agent.
\<close>

definition handle_message_stream_try ::
  "world \<Rightarrow> remote_agent \<Rightarrow> string \<Rightarrow> (string \<times> pyval) list
    \<Rightarrow> string list \<times> exn option \<times> remote_agent" where
  "handle_message_stream_try w a message kwargs =
     (case http_post w (session a) (stream_endpoint a) (request_data message kwargs) True
             [(''Accept'', ''text/event-stream'')] of
        Inl e \<Rightarrow> ([], Some e, a)
      | Inr response \<Rightarrow>
          (case raise_for_status response of
             Inl e \<Rightarrow> ([], Some e, a)
           | Inr _ \<Rightarrow>
               (case stream_loop w (iter_lines response) [] [] of
                  (chunks, Inl e, logs) \<Rightarrow> (chunks, Some e, a\<lparr>tool_call_logs := logs\<rparr>)
                | (chunks, Inr current_text, logs) \<Rightarrow>
                    (chunks @ (if strip current_text \<noteq> [] then [current_text] else []),
                     None, a\<lparr>tool_call_logs := logs\<rparr>))))"

text \<open>
  \<^verbatim>\<open>handle_message_stream\<close>, consumed to its end: the chunks yielded, the exception
  that leaves the generator (\<^term>\<open>None\<close> when it ends by returning), and the agent.
  The \<^verbatim>\<open>except Exception\<close> clause yields the error message; its \<^verbatim>\<open>print\<close> writes
  to standard output and leaves no trace in the result.
\<close>

definition handle_message_stream ::
  "world \<Rightarrow> remote_agent \<Rightarrow> string \<Rightarrow> (string \<times> pyval) list
    \<Rightarrow> string list \<times> exn option \<times> remote_agent" where
  "handle_message_stream w a message kwargs =
     (case handle_message_stream_try w a message kwargs of
        (chunks, None, a') \<Rightarrow> (chunks, None, a')
      | (chunks, Some e, a') \<Rightarrow> (chunks @ [error_message e], None, a'))"

subsection \<open>handle_tool_call\<close>

text \<open>
  \<^verbatim>\<open>tool.function(**args)\<close>: the unpacking needs a mapping.
\<close>

definition call_tool :: "tool \<Rightarrow> pyval \<Rightarrow> exn + pyval" where
  "call_tool f args =
     (case args of
        PDict kvs \<Rightarrow> f kvs
      | _ \<Rightarrow> Inl (TypeError (''argument after ** must be a mapping, not '' @ type_name args)))"

definition tool_not_found :: "world \<Rightarrow> pyval \<Rightarrow> string" where
  "tool_not_found w name = ''[Tool '' @ quoted (py_str w name) @ '' not found]''"

definition call_info ::
  "world \<Rightarrow> remote_agent \<Rightarrow> pyval \<Rightarrow> pyval \<Rightarrow> (string \<times> pyval) list" where
  "call_info w a name args =
     [(''Tool_call_source'', PStr (agent_name a)),
      (''Tool_call_Destination'', name),
      (''Tool_call_Arguments'', PStr (json_dumps w args)),
      (''Tool_call_Response'', PStr [])]"

text \<open>
  \<^verbatim>\<open>handle_tool_call\<close>: \<^term>\<open>Inr result\<close> is the value returned, \<^term>\<open>Inl e\<close> an
  exception leaving the method.
\<close>

definition handle_tool_call ::
  "world \<Rightarrow> remote_agent \<Rightarrow> (string \<times> pyval) list \<Rightarrow> (exn + pyval) \<times> remote_agent" where
  "handle_tool_call w a tool_call =
     (case py_get (PDict tool_call) ''function'' (PDict []) of
        Inl e \<Rightarrow> (Inl e, a)
      | Inr function_data \<Rightarrow>
          (case py_get function_data ''name'' PNone of
             Inl e \<Rightarrow> (Inl e, a)
           | Inr name \<Rightarrow>
               (case py_get function_data ''arguments'' (PStr ''{}'') of
                  Inl e \<Rightarrow> (Inl e, a)
                | Inr arguments \<Rightarrow>
                    (case (case json_loads_value w arguments of
                             Inl (JSONDecodeError msg) \<Rightarrow> Inr (PDict [])
                           | Inl e \<Rightarrow> Inl e
                           | Inr v \<Rightarrow> Inr v) of
                       Inl e \<Rightarrow> (Inl e, a)
                     | Inr args \<Rightarrow>
                         (let tool = (case tool_registry a of
                                        None \<Rightarrow> None
                                      | Some registry \<Rightarrow> registry name);
                              info = call_info w a name args
                          in case tool of
                               Some f \<Rightarrow>
                                 (case call_tool f args of
                                    Inl e \<Rightarrow> (Inl e, a)
                                  | Inr result \<Rightarrow>
                                      (Inr result,
                                       a\<lparr>tool_call_logs := tool_call_logs a @
                                           [PDict (AList.update ''Tool_call_Response'' result info)]\<rparr>))
                             | None \<Rightarrow>
                                 (let result = PStr (tool_not_found w name) in
                                  (Inr result,
                                   a\<lparr>tool_call_logs := tool_call_logs a @
                                       [PDict (AList.update ''Tool_call_Response'' result info)]\<rparr>)))))))"

section \<open>Vocabulary of the specification\<close>

text \<open>
  A payload line of the stream, as the loop selects it: a line with the prefix
  \<^verbatim>\<open>data:\<close> whose remainder, stripped, is neither empty nor the end token.
\<close>

definition payload :: "string \<Rightarrow> string option" where
  "payload line =
     (if line \<noteq> [] \<and> startswith line ''data:'' then
        (let content = strip (drop 5 line) in
         if content \<noteq> [] \<and> content \<noteq> ''done'' then Some content else None)
      else None)"

text \<open>
  Content fragment, in the sense in which the loop passes its content on: a payload line
  that parses as a JSON object with a \<^verbatim>\<open>content\<close> string and no \<^verbatim>\<open>tool_calls\<close> key.
  The result is the content.
\<close>

definition content_fragment :: "world \<Rightarrow> string \<Rightarrow> string option" where
  "content_fragment w line =
     (case payload line of
        None \<Rightarrow> None
      | Some content \<Rightarrow>
          (case json_loads w content of
             Inr (PDict kvs) \<Rightarrow>
               (case map_of kvs ''tool_calls'' of
                  Some tc \<Rightarrow> None
                | None \<Rightarrow> (case map_of kvs ''content'' of Some (PStr c) \<Rightarrow> Some c | _ \<Rightarrow> None))
           | _ \<Rightarrow> None))"

text \<open>
  Tool-call fragment: a payload line that parses as a JSON object whose
  \<^verbatim>\<open>tool_calls\<close> entry is a list. The result is the entries of the list.
\<close>

definition tool_call_fragment :: "world \<Rightarrow> string \<Rightarrow> pyval list option" where
  "tool_call_fragment w line =
     (case payload line of
        None \<Rightarrow> None
      | Some content \<Rightarrow>
          (case json_loads w content of
             Inr (PDict kvs) \<Rightarrow>
               (case map_of kvs ''tool_calls'' of Some (PList entries) \<Rightarrow> Some entries | _ \<Rightarrow> None)
           | _ \<Rightarrow> None))"

text \<open>
  The classification of one line of the stream: ignored (no payload), a text delta (the
  \<^verbatim>\<open>content\<close> of a parsed object without \<^verbatim>\<open>tool_calls\<close>, empty by default, or the
  raw payload when decoding raises \<^verbatim>\<open>JSONDecodeError\<close>), a tool-call batch (a parsed
  object whose \<^verbatim>\<open>tool_calls\<close> is a list), or anything else.
\<close>

datatype stream_chunk = Ignored | TextDelta string | ToolCallBatch "pyval list" | Unexpected

definition classify :: "world \<Rightarrow> string \<Rightarrow> stream_chunk" where
  "classify w line =
     (case payload line of
        None \<Rightarrow> Ignored
      | Some content \<Rightarrow>
          (case json_loads w content of
             Inl (JSONDecodeError msg) \<Rightarrow> TextDelta content
           | Inl e \<Rightarrow> Unexpected
           | Inr (PDict kvs) \<Rightarrow>
               (case map_of kvs ''tool_calls'' of
                  Some (PList entries) \<Rightarrow> ToolCallBatch entries
                | Some tc \<Rightarrow> Unexpected
                | None \<Rightarrow>
                    (case map_of kvs ''content'' of
                       None \<Rightarrow> TextDelta []
                     | Some (PStr c) \<Rightarrow> TextDelta c
                     | Some v \<Rightarrow> Unexpected))
           | Inr v \<Rightarrow> Unexpected))"

text \<open>
  The chunks the loop yields for a classified line, and the entries it adds to the log.
\<close>

fun chunks_of :: "stream_chunk \<Rightarrow> string list" where
  "chunks_of (TextDelta d) = [d @ '' '']"
| "chunks_of (ToolCallBatch entries) = ['' '']"
| "chunks_of c = []"

fun entries_of :: "stream_chunk \<Rightarrow> pyval list" where
  "entries_of (ToolCallBatch entries) = entries"
| "entries_of c = []"

text \<open>
  The fields of a call record, under the keys \<^verbatim>\<open>handle_tool_call\<close> writes and the
  log readers look up.
\<close>

definition record_field :: "string \<Rightarrow> pyval \<Rightarrow> pyval option" where
  "record_field key entry = (case entry of PDict kvs \<Rightarrow> map_of kvs key | _ \<Rightarrow> None)"

definition tool_call_record :: "world \<Rightarrow> remote_agent \<Rightarrow> pyval \<Rightarrow> pyval \<Rightarrow> pyval \<Rightarrow> pyval" where
  "tool_call_record w a name args result =
     PDict [(''Tool_call_source'', PStr (agent_name a)),
            (''Tool_call_Destination'', name),
            (''Tool_call_Arguments'', PStr (json_dumps w args)),
            (''Tool_call_Response'', result)]"

section \<open>Sample inputs\<close>

text \<open>
  A stand-in for \<^verbatim>\<open>json.loads\<close> on the texts the examples use. A text of more than
  4300 decimal digits is an integer literal beyond the digit limit, on which the
  library raises \<^verbatim>\<open>ValueError\<close>; the texts of the table decode to the values given;
  every other text counts as undecodable.
\<close>

definition sample_table :: "(string \<times> pyval) list" where
  \<open>sample_table =
     [(''{"tool_calls":[{"id":"1"}]}'',
         PDict [(''tool_calls'', PList [PDict [(''id'', PStr ''1'')]])]),
      (''{"content":"Hello"}'', PDict [(''content'', PStr ''Hello'')]),
      (''{"content":"world"}'', PDict [(''content'', PStr ''world'')]),
      (''{"content":"Hello","tool_calls":null}'',
         PDict [(''content'', PStr ''Hello''), (''tool_calls'', PNone)]),
      (''{"content":5}'', PDict [(''content'', PInt 5)]),
      (''{"a":1,"b":"two"}'', PDict [(''a'', PInt 1), (''b'', PStr ''two'')]),
      (''{}'', PDict []),
      (''5'', PInt 5)]\<close>

definition sample_loads :: "string \<Rightarrow> exn + pyval" where
  "sample_loads s =
     (if 4300 < length s \<and> list_all (\<lambda>c. c \<in> set ''0123456789'') s then
        Inl (ValueError (''Exceeds the limit (4300 digits) for integer string conversion: value has ''
                         @ show_nat (length s)
                         @ '' digits; use sys.set_int_max_str_digits() to increase the limit''))
      else
        (case map_of sample_table s of
           Some v \<Rightarrow> Inr v
         | None \<Rightarrow> Inl (JSONDecodeError ''Expecting value: line 1 column 1 (char 0)'')))"

definition sample_dumps :: "pyval \<Rightarrow> string" where
  \<open>sample_dumps v =
     (case v of
        PDict [] \<Rightarrow> ''{}''
      | PDict [(a, PInt i), (b, PStr t)] \<Rightarrow>
          ''{"'' @ a @ ''": '' @ show_int i @ '', "'' @ b @ ''": "'' @ t @ [CHR 0x22] @ ''}''
      | _ \<Rightarrow> ''null'')\<close>

text \<open>A world whose transport answers every request with the given outcome.\<close>

definition sample_world :: "exn + response \<Rightarrow> world" where
  "sample_world outcome =
     \<lparr> http_post = (\<lambda>s u d st h. outcome),
       json_loads = sample_loads,
       json_dumps = sample_dumps,
       py_repr = (\<lambda>v. ''?'') \<rparr>"

definition sample_response :: "int \<Rightarrow> string \<Rightarrow> exn + pyval \<Rightarrow> (exn + string) list \<Rightarrow> response" where
  "sample_response code why body lines =
     \<lparr> status_code = code, reason = why, url = ''http://x/chat'',
       json = body, iter_lines = lines \<rparr>"

definition sample_config :: remote_agent_config where
  "sample_config =
     \<lparr> cfg_agent_name = ''joke_agent'',
       cfg_system_prompt = ''You tell jokes.'',
       cfg_tool_registry = None,
       cfg_base_url = Some ''http://x/'',
       cfg_verify_ssl = True,
       cfg_auth_token = Some ''secret'' \<rparr>"

text \<open>A registry with a tool that answers and a tool that raises.\<close>

definition sample_registry :: tool_registry where
  "sample_registry name =
     (if name = PStr ''echo'' then Some (\<lambda>kwargs. Inr (PDict kwargs))
      else if name = PStr ''boom'' then Some (\<lambda>kwargs. Inl (OtherException ''boom failed''))
      else None)"

definition sample_agent :: "pyval list \<Rightarrow> remote_agent" where
  "sample_agent logs =
     \<lparr> agent_name = ''joke_agent'',
       tool_registry = Some sample_registry,
       base_url = ''http://x'',
       system_prompt = ''You tell jokes.'',
       session = \<lparr> headers = [(''Authorization'', ''Bearer secret'')], verify = True \<rparr>,
       tool_call_logs = logs \<rparr>"

definition sample_tool_call :: "string \<Rightarrow> string \<Rightarrow> (string \<times> pyval) list" where
  "sample_tool_call name arguments =
     [(''id'', PStr ''call_1''),
      (''function'', PDict [(''name'', PStr name), (''arguments'', PStr arguments)])]"

text \<open>A tool-call entry as the remote service sends it, and a chat body carrying it.\<close>

definition sample_entry :: pyval where
  "sample_entry =
     PDict [(''function'', PDict [(''name'', PStr ''echo''), (''arguments'', PStr ''{}'')])]"

definition sample_chat_body :: "(string \<times> pyval) list" where
  "sample_chat_body =
     [(''response'', PStr ''Why did the chicken cross the road?''),
      (''tool_calls'', PList [sample_entry])]"

section \<open>Facts about the built-in operations\<close>

lemma takeWhile_eq_replicate:
  "takeWhile (\<lambda>x. x = c) xs = replicate (length (takeWhile (\<lambda>x. x = c) xs)) c"
  by (induction xs) auto

lemma rstrip_decompose:
  "s = rstrip s c @ replicate (length (takeWhile (\<lambda>x. x = c) (rev s))) c"
proof -
  let ?P = "\<lambda>x. x = c"
  have "s = rev (dropWhile ?P (rev s)) @ rev (takeWhile ?P (rev s))"
    by (metis rev_append rev_rev_ident takeWhile_dropWhile_id)
  moreover have "rev (takeWhile ?P (rev s)) = replicate (length (takeWhile ?P (rev s))) c"
    using takeWhile_eq_replicate [of c "rev s"] by (metis rev_replicate)
  ultimately show ?thesis by (simp add: rstrip_def)
qed

lemma rstrip_no_trailing: "rstrip s c = [] \<or> last (rstrip s c) \<noteq> c"
proof (cases "dropWhile (\<lambda>x. x = c) (rev s)")
  case Nil
  then show ?thesis by (simp add: rstrip_def)
next
  case (Cons y ys)
  then have "y \<noteq> c" using hd_dropWhile [of "\<lambda>x. x = c" "rev s"] by auto
  with Cons show ?thesis by (simp add: rstrip_def)
qed

section \<open>Construction\<close>

text \<open>
  C5. Construction fails with the configuration error (\<^verbatim>\<open>ValueError\<close>) when the base
  address is absent or empty. Otherwise it succeeds, the stored base address is the
  given one without its trailing path separators (the given address is the stored one
  followed by separators only, and the stored one does not end in a separator), and the
  chat endpoint is the stored address followed by \<^verbatim>\<open>/chat\<close>.
\<close>

theorem RemoteAgent_init_base_url:
  "(case cfg_base_url config of
      None \<Rightarrow> RemoteAgent_init config = Inl (ValueError ''RemoteAgent base URL is required.'')
    | Some u \<Rightarrow>
        if u = [] then
          RemoteAgent_init config = Inl (ValueError ''RemoteAgent base URL is required.'')
        else (\<exists>a n. RemoteAgent_init config = Inr a
                \<and> u = base_url a @ replicate n CHR ''/''
                \<and> (base_url a = [] \<or> last (base_url a) \<noteq> CHR ''/'')
                \<and> chat_endpoint a = base_url a @ ''/chat''))"
proof (cases "cfg_base_url config")
  case None
  then show ?thesis by (simp add: RemoteAgent_init_def)
next
  case (Some u)
  show ?thesis
  proof (cases "u = []")
    case True
    with Some show ?thesis by (simp add: RemoteAgent_init_def)
  next
    case False
    have "u = rstrip u CHR ''/'' @
                replicate (length (takeWhile (\<lambda>x. x = CHR ''/'') (rev u))) CHR ''/''"
      by (rule rstrip_decompose)
    moreover have "rstrip u CHR ''/'' = [] \<or> last (rstrip u CHR ''/'') \<noteq> CHR ''/''"
      by (rule rstrip_no_trailing)
    ultimately show ?thesis using Some False
      by (auto simp: RemoteAgent_init_def chat_endpoint_def)
  qed
qed

text \<open>
  The base address \<^verbatim>\<open>http://x/\<close> is accepted and gives the chat endpoint
  \<^verbatim>\<open>http://x/chat\<close>.
\<close>

theorem RemoteAgent_init_base_url_witness:
  "cfg_base_url sample_config = Some ''http://x/''
   \<and> (\<exists>a. RemoteAgent_init sample_config = Inr a
          \<and> base_url a = ''http://x'' \<and> chat_endpoint a = ''http://x/chat'')"
  using RemoteAgent_init_base_url [of sample_config]
  by (auto simp: sample_config_def RemoteAgent_init_def rstrip_def chat_endpoint_def)

section \<open>Synchronous send\<close>

lemma show_int_404: "show_int 404 = ''404''"
  by code_simp

lemma show_nat_4301: "show_nat 4301 = ''4301''"
  by code_simp

lemma handle_message_except_value: "\<exists>s. handle_message_except e = Inr (PStr s)"
  by (cases e) auto

lemma handle_message_except_other:
  "\<forall>code msg. e \<noteq> HTTPError code msg \<Longrightarrow> handle_message_except e = Inr (PStr (error_message e))"
  by (cases e) auto

lemma handle_message_try_unchanged:
  "handle_message_try w a message kwargs = (Inl e, a') \<Longrightarrow> a' = a"
  by (auto simp: handle_message_try_def list_extend_def
           split: sum.splits if_splits prod.splits)

lemma handle_message_try_value:
  assumes "handle_message_try w a message kwargs = (Inr v, a')"
  shows "\<exists>r kvs. http_post w (session a) (chat_endpoint a) (request_data message kwargs) False [] = Inr r
           \<and> raise_for_status r = Inr () \<and> json r = Inr (PDict kvs)
           \<and> v = (case map_of kvs ''response'' of None \<Rightarrow> PStr [] | Some x \<Rightarrow> x)"
proof -
  from assms obtain r jr where
    r: "http_post w (session a) (chat_endpoint a) (request_data message kwargs) False [] = Inr r"
    and ok: "raise_for_status r = Inr ()" and j: "json r = Inr jr"
    and v: "py_get jr ''response'' (PStr []) = Inr v"
    by (auto simp: handle_message_try_def list_extend_def
           split: sum.splits if_splits prod.splits)
  from v obtain kvs where "jr = PDict kvs" by (cases jr) auto
  with r ok j v show ?thesis by auto
qed

text \<open>
  What \<^verbatim>\<open>handle_message\<close> returns. It always returns a value and never raises. The
  value is a string with one exception: on a successful exchange the \<^verbatim>\<open>response\<close>
  field of the decoded body is returned as it is. On status 401 the value is the
  authentication-failure sentinel; on any other status from 400 to 599 it is the
  generic sentinel around the message of the HTTP error; when the transport raises, or
  the body cannot be decoded, it is the generic sentinel around the text of the
  exception.
\<close>

lemma handle_message_never_raises:
  "((\<exists>s. fst (handle_message w a message kwargs) = Inr (PStr s))
     \<or> (\<exists>r kvs v. http_post w (session a) (chat_endpoint a) (request_data message kwargs) False [] = Inr r
           \<and> raise_for_status r = Inr () \<and> json r = Inr (PDict kvs)
           \<and> map_of kvs ''response'' = Some v
           \<and> fst (handle_message w a message kwargs) = Inr v))
   \<and> (\<forall>r. http_post w (session a) (chat_endpoint a) (request_data message kwargs) False [] = Inr r
          \<longrightarrow> status_code r = 401
          \<longrightarrow> fst (handle_message w a message kwargs) = Inr (PStr auth_failed))
   \<and> (\<forall>r. http_post w (session a) (chat_endpoint a) (request_data message kwargs) False [] = Inr r
          \<longrightarrow> 400 \<le> status_code r \<and> status_code r < 600 \<and> status_code r \<noteq> 401
          \<longrightarrow> (\<exists>msg. raise_for_status r = Inl (HTTPError (status_code r) msg)
                 \<and> fst (handle_message w a message kwargs)
                     = Inr (PStr (''[RemoteAgent error: '' @ msg @ '']''))))
   \<and> (\<forall>e. http_post w (session a) (chat_endpoint a) (request_data message kwargs) False [] = Inl e
          \<longrightarrow> (\<forall>code msg. e \<noteq> HTTPError code msg)
          \<longrightarrow> fst (handle_message w a message kwargs)
                = Inr (PStr (''[RemoteAgent error: '' @ str_exn e @ '']'')))
   \<and> (\<forall>r e. http_post w (session a) (chat_endpoint a) (request_data message kwargs) False [] = Inr r
          \<longrightarrow> raise_for_status r = Inr () \<longrightarrow> json r = Inl e
          \<longrightarrow> (\<forall>code msg. e \<noteq> HTTPError code msg)
          \<longrightarrow> fst (handle_message w a message kwargs)
                = Inr (PStr (''[RemoteAgent error: '' @ str_exn e @ '']'')))"
  (is "?A \<and> ?B \<and> ?C \<and> ?D \<and> ?E")
proof -
  let ?post = "http_post w (session a) (chat_endpoint a) (request_data message kwargs) False []"
  have A: ?A
  proof (cases "handle_message_try w a message kwargs")
    case (Pair res a')
    show ?thesis
    proof (cases res)
      case (Inl e)
      with Pair handle_message_except_value [of e] show ?thesis
        by (auto simp: handle_message_def)
    next
      case (Inr v)
      with Pair obtain r kvs where
        *: "?post = Inr r" "raise_for_status r = Inr ()" "json r = Inr (PDict kvs)"
           "v = (case map_of kvs ''response'' of None \<Rightarrow> PStr [] | Some x \<Rightarrow> x)"
        using handle_message_try_value by blast
      have res: "fst (handle_message w a message kwargs) = Inr v"
        using Pair Inr by (simp add: handle_message_def)
      show ?thesis
      proof (cases "map_of kvs ''response''")
        case None
        with * res show ?thesis by simp
      next
        case (Some x)
        with * res show ?thesis by auto
      qed
    qed
  qed
  have B: ?B
    by (auto simp: handle_message_def handle_message_try_def raise_for_status_def)
  have C: ?C
    by (auto simp: handle_message_def handle_message_try_def raise_for_status_def error_message_def)
  have D: ?D
  proof (intro allI impI)
    fix e assume "?post = Inl e" and "\<forall>code msg. e \<noteq> HTTPError code msg"
    then show "fst (handle_message w a message kwargs) = Inr (PStr (''[RemoteAgent error: '' @ str_exn e @ '']''))"
      using handle_message_except_other [of e]
      by (simp add: handle_message_def handle_message_try_def error_message_def)
  qed
  have E: ?E
  proof (intro allI impI)
    fix r e assume "?post = Inr r" "raise_for_status r = Inr ()" "json r = Inl e"
      and "\<forall>code msg. e \<noteq> HTTPError code msg"
    then show "fst (handle_message w a message kwargs) = Inr (PStr (''[RemoteAgent error: '' @ str_exn e @ '']''))"
      using handle_message_except_other [of e]
      by (simp add: handle_message_def handle_message_try_def error_message_def)
  qed
  from A B C D E show ?thesis by blast
qed

text \<open>
  Status 401, status 404, a connection reset and an undecodable body, each with its
  sentinel.
\<close>

lemma handle_message_never_raises_examples:
  "fst (handle_message
          (sample_world (Inr (sample_response 401 ''Unauthorized'' (Inl (JSONDecodeError ''x'')) [])))
          (sample_agent []) ''hi'' [(''thread_id'', PStr ''t1'')])
     = Inr (PStr ''[RemoteAgent error: Authentication failed]'')
   \<and> fst (handle_message
          (sample_world (Inr (sample_response 404 ''Not Found'' (Inl (JSONDecodeError ''x'')) [])))
          (sample_agent []) ''hi'' [(''thread_id'', PStr ''t1'')])
     = Inr (PStr ''[RemoteAgent error: 404 Client Error: Not Found for url: http://x/chat]'')
   \<and> fst (handle_message
          (sample_world (Inl (OtherException ''Connection reset by peer'')))
          (sample_agent []) ''hi'' [(''thread_id'', PStr ''t1'')])
     = Inr (PStr ''[RemoteAgent error: Connection reset by peer]'')
   \<and> fst (handle_message
          (sample_world (Inr (sample_response 200 ''OK''
             (Inl (JSONDecodeError ''Expecting value: line 1 column 1 (char 0)'')) [])))
          (sample_agent []) ''hi'' [(''thread_id'', PStr ''t1'')])
     = Inr (PStr ''[RemoteAgent error: Expecting value: line 1 column 1 (char 0)]'')"
  using
    handle_message_never_raises
      [of "sample_world (Inr (sample_response 401 ''Unauthorized'' (Inl (JSONDecodeError ''x'')) []))"
          "sample_agent []" "''hi''" "[(''thread_id'', PStr ''t1'')]"]
    handle_message_never_raises
      [of "sample_world (Inr (sample_response 404 ''Not Found'' (Inl (JSONDecodeError ''x'')) []))"
          "sample_agent []" "''hi''" "[(''thread_id'', PStr ''t1'')]"]
    handle_message_never_raises
      [of "sample_world (Inl (OtherException ''Connection reset by peer''))"
          "sample_agent []" "''hi''" "[(''thread_id'', PStr ''t1'')]"]
    handle_message_never_raises
      [of "sample_world (Inr (sample_response 200 ''OK''
             (Inl (JSONDecodeError ''Expecting value: line 1 column 1 (char 0)'')) []))"
          "sample_agent []" "''hi''" "[(''thread_id'', PStr ''t1'')]"]
  by (simp add: sample_world_def sample_response_def raise_for_status_def auth_failed_def
                show_int_404)

text \<open>
  C1. \<^verbatim>\<open>handle_message\<close> is declared to return \<^verbatim>\<open>str\<close>, the plain text response,
  and every failure path returns a string. On the answer with status 200 and body
  \<^verbatim>\<open>{"response": 5}\<close> it returns the integer 5: the field is passed on without a
  check of its type.
\<close>

theorem handle_message_returns_integer:
  "fst (handle_message
          (sample_world (Inr (sample_response 200 ''OK'' (Inr (PDict [(''response'', PInt 5)])) [])))
          (sample_agent []) ''hi'' [])
     = Inr (PInt 5)"
  by (simp add: handle_message_def handle_message_try_def sample_world_def sample_response_def
                raise_for_status_def)

text \<open>
  C10. Whenever a statement of the \<^verbatim>\<open>try\<close> block of \<^verbatim>\<open>handle_message\<close> raises,
  the method returns what the \<^verbatim>\<open>except\<close> clauses give and the agent, its call log
  included, is as it was before the call. In particular the log is unchanged when the
  transport raises, when the status is an HTTP error, and when the body cannot be
  decoded.
\<close>

theorem handle_message_failure_keeps_log:
  "(\<forall>e. fst (handle_message_try w a message kwargs) = Inl e
        \<longrightarrow> fst (handle_message w a message kwargs) = handle_message_except e
            \<and> snd (handle_message w a message kwargs) = a)
   \<and> (\<forall>e. http_post w (session a) (chat_endpoint a) (request_data message kwargs) False [] = Inl e
        \<longrightarrow> tool_call_logs (snd (handle_message w a message kwargs)) = tool_call_logs a)
   \<and> (\<forall>r. http_post w (session a) (chat_endpoint a) (request_data message kwargs) False [] = Inr r
        \<longrightarrow> 400 \<le> status_code r \<and> status_code r < 600
        \<longrightarrow> tool_call_logs (snd (handle_message w a message kwargs)) = tool_call_logs a)
   \<and> (\<forall>r e. http_post w (session a) (chat_endpoint a) (request_data message kwargs) False [] = Inr r
        \<longrightarrow> json r = Inl e
        \<longrightarrow> tool_call_logs (snd (handle_message w a message kwargs)) = tool_call_logs a)"
  (is "?A \<and> ?B \<and> ?C \<and> ?D")
proof -
  have A: ?A
  proof (intro allI impI)
    fix e assume e: "fst (handle_message_try w a message kwargs) = Inl e"
    then obtain a' where t: "handle_message_try w a message kwargs = (Inl e, a')"
      by (cases "handle_message_try w a message kwargs") auto
    then have "a' = a" by (rule handle_message_try_unchanged)
    with t show "fst (handle_message w a message kwargs) = handle_message_except e
            \<and> snd (handle_message w a message kwargs) = a"
      by (simp add: handle_message_def)
  qed
  have B: ?B by (simp add: handle_message_def handle_message_try_def)
  have C: ?C by (auto simp: handle_message_def handle_message_try_def raise_for_status_def)
  have D: ?D
    by (auto simp: handle_message_def handle_message_try_def split: sum.splits)
  from A B C D show ?thesis by blast
qed

text \<open>
  A connection reset, a 401 answer, an undecodable body and a \<^verbatim>\<open>tool_calls\<close> value that
  cannot be iterated: each leaves the earlier entry alone in the log.
\<close>

theorem handle_message_failure_keeps_log_witness:
  "tool_call_logs (snd (handle_message
      (sample_world (Inl (OtherException ''Connection reset by peer'')))
      (sample_agent [PStr ''earlier'']) ''hi'' [])) = [PStr ''earlier'']
   \<and> tool_call_logs (snd (handle_message
      (sample_world (Inr (sample_response 401 ''Unauthorized'' (Inr (PDict sample_chat_body)) [])))
      (sample_agent [PStr ''earlier'']) ''hi'' [])) = [PStr ''earlier'']
   \<and> tool_call_logs (snd (handle_message
      (sample_world (Inr (sample_response 200 ''OK'' (Inl (JSONDecodeError ''bad'')) [])))
      (sample_agent [PStr ''earlier'']) ''hi'' [])) = [PStr ''earlier'']
   \<and> snd (handle_message
      (sample_world (Inr (sample_response 200 ''OK''
          (Inr (PDict [(''response'', PStr ''ok''), (''tool_calls'', PInt 7)])) [])))
      (sample_agent [PStr ''earlier'']) ''hi'' []) = sample_agent [PStr ''earlier'']"
  using
    handle_message_failure_keeps_log
      [of "sample_world (Inl (OtherException ''Connection reset by peer''))"
          "sample_agent [PStr ''earlier'']" "''hi''" "[]"]
    handle_message_failure_keeps_log
      [of "sample_world (Inr (sample_response 401 ''Unauthorized''
             (Inr (PDict sample_chat_body)) []))"
          "sample_agent [PStr ''earlier'']" "''hi''" "[]"]
    handle_message_failure_keeps_log
      [of "sample_world (Inr (sample_response 200 ''OK'' (Inl (JSONDecodeError ''bad'')) []))"
          "sample_agent [PStr ''earlier'']" "''hi''" "[]"]
    handle_message_failure_keeps_log
      [of "sample_world (Inr (sample_response 200 ''OK''
          (Inr (PDict [(''response'', PStr ''ok''), (''tool_calls'', PInt 7)])) []))"
          "sample_agent [PStr ''earlier'']" "''hi''" "[]"]
  by (simp add: sample_world_def sample_response_def sample_agent_def handle_message_try_def
        raise_for_status_def list_extend_def)

text \<open>
  C6, as the code has it. On a successful exchange whose body decodes to an object,
  with \<^verbatim>\<open>tool_calls\<close> absent or a list, \<^verbatim>\<open>handle_message\<close> returns the \<^verbatim>\<open>response\<close>
  field (the empty string when absent) and appends the entries of the list to the call
  log as they are, in order; nothing else of the agent changes.
\<close>

theorem handle_message_success:
  assumes "http_post w (session a) (chat_endpoint a) (request_data message kwargs) False [] = Inr r"
    and "raise_for_status r = Inr ()"
    and "json r = Inr (PDict kvs)"
    and "(case map_of kvs ''tool_calls'' of None \<Rightarrow> entries = [] | Some tc \<Rightarrow> tc = PList entries)"
  shows "handle_message w a message kwargs =
           (Inr (case map_of kvs ''response'' of None \<Rightarrow> PStr [] | Some v \<Rightarrow> v),
            a\<lparr>tool_call_logs := tool_call_logs a @ entries\<rparr>)"
  using assms
  by (auto simp: handle_message_def handle_message_try_def list_extend_def split: option.splits)

theorem handle_message_success_witness:
  "handle_message
      (sample_world (Inr (sample_response 200 ''OK'' (Inr (PDict sample_chat_body)) [])))
      (sample_agent [PStr ''earlier'']) ''hi'' []
     = (Inr (PStr ''Why did the chicken cross the road?''),
        sample_agent [PStr ''earlier'', sample_entry])"
  using handle_message_success
      [of "sample_world (Inr (sample_response 200 ''OK'' (Inr (PDict sample_chat_body)) []))"
          "sample_agent [PStr ''earlier'']" "''hi''" "[]"
          "sample_response 200 ''OK'' (Inr (PDict sample_chat_body)) []"
          sample_chat_body "[sample_entry]"]
  by (simp add: sample_world_def sample_response_def sample_agent_def raise_for_status_def
        sample_chat_body_def)

text \<open>
  The entry logged by \<^verbatim>\<open>handle_message\<close> is the one received: it carries neither the
  agent's name as source nor the tool's name as destination.
\<close>

theorem handle_message_record_counterexample:
  "tool_call_logs (snd (handle_message
      (sample_world (Inr (sample_response 200 ''OK'' (Inr (PDict sample_chat_body)) [])))
      (sample_agent []) ''hi'' []))
     = [PDict [(''function'', PDict [(''name'', PStr ''echo''), (''arguments'', PStr ''{}'')])]]
   \<and> record_field ''Tool_call_source''
        (PDict [(''function'', PDict [(''name'', PStr ''echo''), (''arguments'', PStr ''{}'')])])
       \<noteq> Some (PStr (agent_name (sample_agent [])))
   \<and> record_field ''Tool_call_Destination''
        (PDict [(''function'', PDict [(''name'', PStr ''echo''), (''arguments'', PStr ''{}'')])])
       \<noteq> Some (PStr ''echo'')"
  by (simp add: handle_message_def handle_message_try_def sample_world_def sample_response_def
        sample_agent_def raise_for_status_def list_extend_def record_field_def
        sample_chat_body_def sample_entry_def)

section \<open>Streaming send\<close>

subsection \<open>The loop on classified lines\<close>

lemma stream_loop_payload_None:
  "payload line = None \<Longrightarrow> stream_loop w (Inr line # rest) cur logs = stream_loop w rest cur logs"
  by (auto simp: payload_def Let_def split: if_splits)

lemma stream_loop_payload_Some:
  "payload line = Some content \<Longrightarrow>
     stream_loop w (Inr line # rest) cur logs =
       (case process_chunk w content cur logs of
          (Inl e, logs') \<Rightarrow> ([], Inl e, logs')
        | (Inr cur', logs') \<Rightarrow>
            (case stream_loop w rest [] logs' of (chunks, r) \<Rightarrow> ((cur' @ '' '') # chunks, r)))"
  by (auto simp: payload_def Let_def split: if_splits)

lemma classify_Ignored:
  "classify w line = Ignored \<Longrightarrow> payload line = None"
  by (auto simp: classify_def split: option.splits pyval.splits sum.splits exn.splits)

lemma classify_TextDelta:
  "classify w line = TextDelta d \<Longrightarrow>
     \<exists>content. payload line = Some content \<and> process_chunk w content cur logs = (Inr (cur @ d), logs)"
  by (auto simp: classify_def process_chunk_def
           split: option.splits pyval.splits sum.splits exn.splits)

lemma classify_ToolCallBatch:
  "classify w line = ToolCallBatch entries \<Longrightarrow>
     \<exists>content. payload line = Some content
        \<and> process_chunk w content cur logs = (Inr cur, logs @ entries)"
  by (auto simp: classify_def process_chunk_def list_extend_def
           split: option.splits pyval.splits sum.splits exn.splits)

lemma stream_loop_step:
  "classify w line \<noteq> Unexpected \<Longrightarrow>
     stream_loop w (Inr line # rest) [] logs =
       (case stream_loop w rest [] (logs @ entries_of (classify w line)) of
          (chunks, r) \<Rightarrow> (chunks_of (classify w line) @ chunks, r))"
proof (cases "classify w line")
  case Ignored
  then have "payload line = None" by (rule classify_Ignored)
  with Ignored show ?thesis by (simp add: stream_loop_payload_None del: stream_loop.simps split: prod.splits)
next
  case (TextDelta d)
  then obtain content where "payload line = Some content"
    "process_chunk w content [] logs = (Inr ([] @ d), logs)"
    using classify_TextDelta by blast
  with TextDelta show ?thesis by (simp add: stream_loop_payload_Some del: stream_loop.simps)
next
  case (ToolCallBatch entries)
  then obtain content where "payload line = Some content"
    "process_chunk w content [] logs = (Inr [], logs @ entries)"
    using classify_ToolCallBatch by blast
  with ToolCallBatch show ?thesis by (simp add: stream_loop_payload_Some del: stream_loop.simps)
next
  case Unexpected
  assume "classify w line \<noteq> Unexpected"
  with Unexpected show ?thesis by simp
qed

lemma stream_loop_classified_append:
  "\<forall>l \<in> set lines. classify w l \<noteq> Unexpected \<Longrightarrow>
     stream_loop w (map Inr lines @ items) [] logs =
       (case stream_loop w items [] (logs @ concat (map (\<lambda>l. entries_of (classify w l)) lines)) of
          (chunks, r) \<Rightarrow> (concat (map (\<lambda>l. chunks_of (classify w l)) lines) @ chunks, r))"
proof (induction lines arbitrary: logs)
  case Nil
  then show ?case by simp
next
  case (Cons l ls)
  then have "classify w l \<noteq> Unexpected" and "\<forall>l \<in> set ls. classify w l \<noteq> Unexpected" by auto
  then show ?case using Cons.IH [of "logs @ entries_of (classify w l)"]
    by (simp add: stream_loop_step del: stream_loop.simps split: prod.splits)
qed

lemma stream_loop_classified:
  "\<forall>l \<in> set lines. classify w l \<noteq> Unexpected \<Longrightarrow>
     stream_loop w (map Inr lines) [] logs =
       (concat (map (\<lambda>l. chunks_of (classify w l)) lines), Inr [],
        logs @ concat (map (\<lambda>l. entries_of (classify w l)) lines))"
proof (induction lines arbitrary: logs)
  case Nil
  then show ?case by simp
next
  case (Cons l ls)
  then have "classify w l \<noteq> Unexpected" and "\<forall>l \<in> set ls. classify w l \<noteq> Unexpected" by auto
  then show ?case using Cons.IH [of "logs @ entries_of (classify w l)"]
    by (simp add: stream_loop_step del: stream_loop.simps)
qed

lemma content_fragment_classify:
  "content_fragment w line = Some c \<Longrightarrow> classify w line = TextDelta c"
  by (auto simp: content_fragment_def classify_def
           split: option.splits pyval.splits sum.splits exn.splits)

lemma tool_call_fragment_classify:
  "tool_call_fragment w line = Some entries \<Longrightarrow> classify w line = ToolCallBatch entries"
  by (auto simp: tool_call_fragment_def classify_def
           split: option.splits pyval.splits sum.splits exn.splits)

lemma content_fragments_classify:
  "map (content_fragment w) lines = map Some deltas \<Longrightarrow>
     map (classify w) lines = map TextDelta deltas"
proof (induction lines arbitrary: deltas)
  case Nil
  then show ?case by simp
next
  case (Cons l ls)
  then obtain d ds where "deltas = d # ds" by (cases deltas) auto
  with Cons show ?case by (auto simp: content_fragment_classify)
qed

lemma text_deltas_chunks:
  "map (classify w) lines = map TextDelta deltas \<Longrightarrow>
     concat (map (\<lambda>l. chunks_of (classify w l)) lines) = map (\<lambda>d. d @ '' '') deltas
     \<and> concat (map (\<lambda>l. entries_of (classify w l)) lines) = []
     \<and> (\<forall>l \<in> set lines. classify w l \<noteq> Unexpected)"
proof (induction lines arbitrary: deltas)
  case Nil
  then show ?case by simp
next
  case (Cons l ls)
  then obtain d ds where "deltas = d # ds" by (cases deltas) auto
  with Cons show ?case by auto
qed

lemma strip_Nil: "strip [] = []"
  by (simp add: strip_def)

lemma handle_message_stream_opened:
  assumes "http_post w (session a) (stream_endpoint a) (request_data message kwargs) True
             [(''Accept'', ''text/event-stream'')] = Inr r"
    and "raise_for_status r = Inr ()"
    and "stream_loop w (iter_lines r) [] [] = (chunks, res, logs)"
  shows "handle_message_stream w a message kwargs =
           (case res of
              Inl e \<Rightarrow> (chunks @ [error_message e], None, a\<lparr>tool_call_logs := logs\<rparr>)
            | Inr cur \<Rightarrow> (chunks @ (if strip cur \<noteq> [] then [cur] else []), None,
                          a\<lparr>tool_call_logs := logs\<rparr>))"
  using assms
  by (simp add: handle_message_stream_def handle_message_stream_try_def split: sum.splits)

lemma handle_message_stream_classified:
  assumes "http_post w (session a) (stream_endpoint a) (request_data message kwargs) True
             [(''Accept'', ''text/event-stream'')] = Inr r"
    and "raise_for_status r = Inr ()"
    and "iter_lines r = map Inr lines"
    and "\<forall>l \<in> set lines. classify w l \<noteq> Unexpected"
  shows "handle_message_stream w a message kwargs =
           (concat (map (\<lambda>l. chunks_of (classify w l)) lines), None,
            a\<lparr>tool_call_logs := concat (map (\<lambda>l. entries_of (classify w l)) lines)\<rparr>)"
proof -
  have "stream_loop w (iter_lines r) [] [] =
          (concat (map (\<lambda>l. chunks_of (classify w l)) lines), Inr [],
           concat (map (\<lambda>l. entries_of (classify w l)) lines))"
    using stream_loop_classified [OF assms(4), of "[]"] assms(3) by simp
  from handle_message_stream_opened [OF assms(1,2) this] show ?thesis
    by (simp add: strip_Nil)
qed

lemma payload_None_classify: "payload l = None \<Longrightarrow> classify w l = Ignored"
  by (simp add: classify_def)

lemma payload_None_content_fragment: "payload l = None \<Longrightarrow> content_fragment w l = None"
  by (simp add: content_fragment_def)

lemma content_or_ignored_chunks:
  "\<forall>l \<in> set lines. payload l = None \<or> content_fragment w l \<noteq> None \<Longrightarrow>
     concat (map (\<lambda>l. chunks_of (classify w l)) lines)
       = map (\<lambda>d. d @ '' '') (List.map_filter (content_fragment w) lines)
     \<and> (\<forall>l \<in> set lines. classify w l \<noteq> Unexpected)"
proof (induction lines)
  case Nil
  then show ?case by (simp add: map_filter_simps)
next
  case (Cons l ls)
  then have rest: "\<forall>l \<in> set ls. payload l = None \<or> content_fragment w l \<noteq> None" by simp
  show ?case
  proof (cases "content_fragment w l")
    case None
    with Cons.prems have "payload l = None" by simp
    then have "classify w l = Ignored" by (rule payload_None_classify)
    with None Cons.IH [OF rest] show ?thesis by (simp add: map_filter_simps)
  next
    case (Some c)
    then have "classify w l = TextDelta c" by (rule content_fragment_classify)
    with Some Cons.IH [OF rest] show ?thesis by (simp add: map_filter_simps)
  qed
qed

subsection \<open>The sample stream\<close>

lemma sample_world_simps:
  "http_post (sample_world out) s u d st h = out"
  "json_loads (sample_world out) = sample_loads"
  "json_dumps (sample_world out) = sample_dumps"
  by (simp_all add: sample_world_def)

lemma sample_loads_simps:
  \<open>sample_loads ''{"tool_calls":[{"id":"1"}]}''
     = Inr (PDict [(''tool_calls'', PList [PDict [(''id'', PStr ''1'')]])])\<close>
  \<open>sample_loads ''{"content":"Hello"}'' = Inr (PDict [(''content'', PStr ''Hello'')])\<close>
  \<open>sample_loads ''{"content":"world"}'' = Inr (PDict [(''content'', PStr ''world'')])\<close>
  \<open>sample_loads ''{"content":"Hello","tool_calls":null}''
     = Inr (PDict [(''content'', PStr ''Hello''), (''tool_calls'', PNone)])\<close>
  \<open>sample_loads ''{"content":5}'' = Inr (PDict [(''content'', PInt 5)])\<close>
  \<open>sample_loads ''{"a":1,"b":"two"}'' = Inr (PDict [(''a'', PInt 1), (''b'', PStr ''two'')])\<close>
  \<open>sample_loads ''{}'' = Inr (PDict [])\<close>
  \<open>sample_loads ''5'' = Inr (PInt 5)\<close>
  \<open>sample_loads ''plain words''
     = Inl (JSONDecodeError ''Expecting value: line 1 column 1 (char 0)'')\<close>
  by (simp_all add: sample_loads_def sample_table_def)

lemma sample_response_simps:
  "status_code (sample_response code why body lines) = code"
  "json (sample_response code why body lines) = body"
  "iter_lines (sample_response code why body lines) = lines"
  "raise_for_status (sample_response 200 why body lines) = Inr ()"
  by (simp_all add: sample_response_def raise_for_status_def)

lemma sample_tool_call_fragment:
  \<open>tool_call_fragment (sample_world out) ''data: {"tool_calls":[{"id":"1"}]}''
     = Some [PDict [(''id'', PStr ''1'')]]\<close>
  by (simp add: tool_call_fragment_def payload_def startswith_def strip_def isspace_def
        sample_world_simps sample_loads_simps)

lemma sample_content_fragments:
  \<open>content_fragment (sample_world out) ''data: {"content":"Hello"}'' = Some ''Hello''\<close>
  \<open>content_fragment (sample_world out) ''data: {"content":"world"}'' = Some ''world''\<close>
  by (simp_all add: content_fragment_def payload_def startswith_def strip_def isspace_def
        sample_world_simps sample_loads_simps)

lemma sample_payload_None:
  "payload [] = None" "payload ''event: ping'' = None" "payload ''data: done'' = None"
  "payload ''data:'' = None"
  by (simp_all add: payload_def startswith_def strip_def isspace_def)

lemma sample_classify:
  \<open>classify (sample_world out) ''data: {"content":"Hello"}'' = TextDelta ''Hello''\<close>
  \<open>classify (sample_world out) ''data: {"tool_calls":[{"id":"1"}]}''
     = ToolCallBatch [PDict [(''id'', PStr ''1'')]]\<close>
  \<open>classify (sample_world out) ''event: ping'' = Ignored\<close>
  \<open>classify (sample_world out) ''data: done'' = Ignored\<close>
  \<open>classify (sample_world out) ''data: plain words'' = TextDelta ''plain words''\<close>
  by (simp_all add: classify_def payload_def startswith_def strip_def isspace_def
        sample_world_simps sample_loads_simps)

subsection \<open>Tool-call fragments\<close>

text \<open>
  C2, as the code has it. For a payload line that parses as a JSON object with a
  tool-call list, every entry of the list is appended to the call log, and the chunk
  yielded for the line is the single join space: no text of the fragment is emitted.
  For a stream that opens, with one tool-call fragment followed by content fragments,
  the chunks are that space and then each content with its trailing space, and the log
  holds exactly the entries of the fragment.
\<close>

theorem tool_call_fragment_stream:
  "(tool_call_fragment w line = Some entries \<longrightarrow>
      stream_loop w (Inr line # rest) [] logs =
        (case stream_loop w rest [] (logs @ entries) of (chunks, r) \<Rightarrow> ('' '' # chunks, r)))
   \<and> (\<forall>r lines deltas.
         http_post w (session a) (stream_endpoint a) (request_data message kwargs) True
             [(''Accept'', ''text/event-stream'')] = Inr r
         \<longrightarrow> raise_for_status r = Inr ()
         \<longrightarrow> iter_lines r = map Inr (line # lines)
         \<longrightarrow> tool_call_fragment w line = Some entries
         \<longrightarrow> map (content_fragment w) lines = map Some deltas
         \<longrightarrow> handle_message_stream w a message kwargs =
               ('' '' # map (\<lambda>d. d @ '' '') deltas, None, a\<lparr>tool_call_logs := entries\<rparr>))"
  (is "?A \<and> ?B")
proof -
  have A: ?A
  proof
    assume "tool_call_fragment w line = Some entries"
    then have c: "classify w line = ToolCallBatch entries" by (rule tool_call_fragment_classify)
    then have "classify w line \<noteq> Unexpected" by simp
    from stream_loop_step [OF this, of rest logs] c show
      "stream_loop w (Inr line # rest) [] logs =
        (case stream_loop w rest [] (logs @ entries) of (chunks, r) \<Rightarrow> ('' '' # chunks, r))"
      by simp
  qed
  have B: ?B
  proof (intro allI impI)
    fix r lines deltas
    assume p: "http_post w (session a) (stream_endpoint a) (request_data message kwargs) True
             [(''Accept'', ''text/event-stream'')] = Inr r"
      and ok: "raise_for_status r = Inr ()"
      and it: "iter_lines r = map Inr (line # lines)"
      and tc: "tool_call_fragment w line = Some entries"
      and cf: "map (content_fragment w) lines = map Some deltas"
    have c: "classify w line = ToolCallBatch entries" using tc by (rule tool_call_fragment_classify)
    note t = text_deltas_chunks [OF content_fragments_classify [OF cf]]
    have "\<forall>l \<in> set (line # lines). classify w l \<noteq> Unexpected" using c t by simp
    from handle_message_stream_classified [OF p ok it this] c t
    show "handle_message_stream w a message kwargs =
               ('' '' # map (\<lambda>d. d @ '' '') deltas, None, a\<lparr>tool_call_logs := entries\<rparr>)"
      by simp
  qed
  from A B show ?thesis by blast
qed

text \<open>
  The fragment \<^verbatim>\<open>{"tool_calls":[{"id":"1"}]}\<close> followed by two content fragments, on an
  agent whose log held an earlier entry.
\<close>

theorem tool_call_fragment_stream_witness:
  \<open>handle_message_stream
      (sample_world (Inr (sample_response 200 ''OK'' (Inl (JSONDecodeError ''no body''))
         [Inr ''data: {"tool_calls":[{"id":"1"}]}'', Inr ''data: {"content":"Hello"}'',
          Inr ''data: {"content":"world"}''])))
      (sample_agent [sample_entry]) ''hi'' []
     = (['' '', ''Hello '', ''world ''], None, sample_agent [PDict [(''id'', PStr ''1'')]])\<close>
proof -
  let ?r = \<open>sample_response 200 ''OK'' (Inl (JSONDecodeError ''no body''))
         [Inr ''data: {"tool_calls":[{"id":"1"}]}'', Inr ''data: {"content":"Hello"}'',
          Inr ''data: {"content":"world"}'']\<close>
  have \<open>handle_message_stream (sample_world (Inr ?r)) (sample_agent [sample_entry]) ''hi'' []
          = ('' '' # map (\<lambda>d. d @ '' '') [''Hello'', ''world''], None,
             (sample_agent [sample_entry])\<lparr>tool_call_logs := [PDict [(''id'', PStr ''1'')]]\<rparr>)\<close>
    by (rule tool_call_fragment_stream
          [of \<open>sample_world (Inr ?r)\<close> \<open>''data: {"tool_calls":[{"id":"1"}]}''\<close>
              "[PDict [(''id'', PStr ''1'')]]" "[]" "[]" "sample_agent [sample_entry]" "''hi''" "[]",
           THEN conjunct2, rule_format,
           of ?r \<open>[''data: {"content":"Hello"}'', ''data: {"content":"world"}'']\<close>])
       (simp_all add: sample_world_simps sample_response_simps sample_tool_call_fragment
          sample_content_fragments)
  then show ?thesis by (simp add: sample_agent_def)
qed

text \<open>
  A stream whose only line is a tool-call fragment still yields a chunk, the space.
\<close>

theorem tool_call_fragment_chunk_counterexample:
  \<open>fst (handle_message_stream
      (sample_world (Inr (sample_response 200 ''OK'' (Inl (JSONDecodeError ''no body''))
         [Inr ''data: {"tool_calls":[{"id":"1"}]}''])))
      (sample_agent []) ''hi'' [])
     = ['' '']
   \<and> fst (handle_message_stream
      (sample_world (Inr (sample_response 200 ''OK'' (Inl (JSONDecodeError ''no body''))
         [Inr ''data: {"tool_calls":[{"id":"1"}]}''])))
      (sample_agent []) ''hi'' [])
     \<noteq> []\<close>
  by (simp add: handle_message_stream_def handle_message_stream_try_def sample_world_def
        sample_response_def raise_for_status_def process_chunk_def list_extend_def
        startswith_def strip_def isspace_def sample_world_simps sample_loads_simps)

subsection \<open>Content fragments\<close>

text \<open>
  C3, as the code has it. A content fragment is a payload line that decodes to an
  object with a string \<^verbatim>\<open>content\<close> and no \<^verbatim>\<open>tool_calls\<close> key. For a stream that
  opens and in which every line is either ignored by the loop (a blank line, a line
  without the \<^verbatim>\<open>data:\<close> prefix, an empty payload, the end token) or a content
  fragment, the chunks yielded are, in order, the content of each fragment with exactly
  one space appended (nothing is carried from one fragment to the next), so removing
  the last character of every chunk gives back the contents, and their concatenation.
\<close>

theorem content_stream_roundtrip:
  assumes "http_post w (session a) (stream_endpoint a) (request_data message kwargs) True
             [(''Accept'', ''text/event-stream'')] = Inr r"
    and "raise_for_status r = Inr ()"
    and "iter_lines r = map Inr lines"
    and "\<forall>l \<in> set lines. payload l = None \<or> content_fragment w l \<noteq> None"
  shows "fst (handle_message_stream w a message kwargs)
           = map (\<lambda>d. d @ '' '') (List.map_filter (content_fragment w) lines)
         \<and> map butlast (fst (handle_message_stream w a message kwargs))
           = List.map_filter (content_fragment w) lines
         \<and> concat (map butlast (fst (handle_message_stream w a message kwargs)))
           = concat (List.map_filter (content_fragment w) lines)"
proof -
  note t = content_or_ignored_chunks [OF assms(4)]
  have "handle_message_stream w a message kwargs =
           (concat (map (\<lambda>l. chunks_of (classify w l)) lines), None,
            a\<lparr>tool_call_logs := concat (map (\<lambda>l. entries_of (classify w l)) lines)\<rparr>)"
    using assms(1,2,3) t by (intro handle_message_stream_classified) auto
  with t have "fst (handle_message_stream w a message kwargs)
                 = map (\<lambda>d. d @ '' '') (List.map_filter (content_fragment w) lines)"
    by simp
  moreover have "map butlast (map (\<lambda>d. d @ '' '') ds) = ds" for ds :: "string list"
    by (induction ds) auto
  ultimately show ?thesis by simp
qed

text \<open>
  Two content fragments, \<^verbatim>\<open>Hello\<close> and \<^verbatim>\<open>world\<close>, between an event line, a blank
  line and the end token.
\<close>

theorem content_stream_roundtrip_witness:
  \<open>fst (handle_message_stream
          (sample_world (Inr (sample_response 200 ''OK'' (Inl (JSONDecodeError ''no body''))
             [Inr ''event: ping'', Inr ''data: {"content":"Hello"}'', Inr [],
              Inr ''data: {"content":"world"}'', Inr ''data: done''])))
          (sample_agent []) ''hi'' [])
     = [''Hello '', ''world '']
   \<and> map butlast [''Hello '', ''world ''] = [''Hello'', ''world'']\<close>
proof -
  let ?lines = \<open>[''event: ping'', ''data: {"content":"Hello"}'', [],
              ''data: {"content":"world"}'', ''data: done'']\<close>
  let ?r = \<open>sample_response 200 ''OK'' (Inl (JSONDecodeError ''no body'')) (map Inr ?lines)\<close>
  have \<open>fst (handle_message_stream (sample_world (Inr ?r)) (sample_agent []) ''hi'' [])
           = map (\<lambda>d. d @ '' '') (List.map_filter (content_fragment (sample_world (Inr ?r))) ?lines)\<close>
    by (rule content_stream_roundtrip
          [of "sample_world (Inr ?r)" "sample_agent []" "''hi''" "[]" ?r ?lines,
           THEN conjunct1])
       (auto simp add: sample_world_simps sample_response_simps sample_content_fragments
          sample_payload_None)
  then show ?thesis
    by (simp add: map_filter_simps sample_content_fragments payload_None_content_fragment
          sample_payload_None)
qed

text \<open>
  A payload with a \<^verbatim>\<open>content\<close> field and no tool-call list does not always give its
  content back: with \<^verbatim>\<open>"tool_calls": null\<close> beside the content the loop takes the
  tool-call branch and fails on the \<^verbatim>\<open>extend\<close>, and with a content that is not a
  string the concatenation fails. Either stream yields the error fragment only.
\<close>

theorem content_fragment_wording_counterexample:
  \<open>fst (handle_message_stream
          (sample_world (Inr (sample_response 200 ''OK'' (Inl (JSONDecodeError ''no body''))
             [Inr ''data: {"content":"Hello","tool_calls":null}''])))
          (sample_agent []) ''hi'' [])
     = [''[RemoteAgent error: 'NoneType' object is not iterable]'']
   \<and> fst (handle_message_stream
          (sample_world (Inr (sample_response 200 ''OK'' (Inl (JSONDecodeError ''no body''))
             [Inr ''data: {"content":5}''])))
          (sample_agent []) ''hi'' [])
     = [''[RemoteAgent error: can only concatenate str (not "int") to str]'']\<close>
  by (simp add: handle_message_stream_def handle_message_stream_try_def sample_world_simps
        sample_response_simps process_chunk_def list_extend_def startswith_def strip_def
        isspace_def sample_loads_simps error_message_def quoted_def)

subsection \<open>Failures while streaming\<close>

text \<open>
  C4. \<^verbatim>\<open>handle_message_stream\<close> always ends by returning, never by raising. When
  its \<^verbatim>\<open>try\<close> block raises after yielding some chunks, the generator yields those
  chunks, then exactly one error fragment around the text of the exception, and ends;
  when the block does not raise, no error fragment is added. In particular: a transport
  exception and an HTTP error status give the error fragment alone, and an exception of
  the line iterator after well-formed lines gives their chunks followed by the error
  fragment.
\<close>

theorem handle_message_stream_never_raises:
  "(\<exists>chunks a'. handle_message_stream w a message kwargs = (chunks, None, a'))
   \<and> (\<forall>chunks e a'. handle_message_stream_try w a message kwargs = (chunks, Some e, a')
         \<longrightarrow> handle_message_stream w a message kwargs = (chunks @ [error_message e], None, a'))
   \<and> (\<forall>chunks a'. handle_message_stream_try w a message kwargs = (chunks, None, a')
         \<longrightarrow> handle_message_stream w a message kwargs = (chunks, None, a'))
   \<and> (\<forall>e. http_post w (session a) (stream_endpoint a) (request_data message kwargs) True
             [(''Accept'', ''text/event-stream'')] = Inl e
         \<longrightarrow> fst (handle_message_stream w a message kwargs)
               = [''[RemoteAgent error: '' @ str_exn e @ '']''])
   \<and> (\<forall>r. http_post w (session a) (stream_endpoint a) (request_data message kwargs) True
             [(''Accept'', ''text/event-stream'')] = Inr r
         \<longrightarrow> 400 \<le> status_code r \<and> status_code r < 600
         \<longrightarrow> (\<exists>msg. raise_for_status r = Inl (HTTPError (status_code r) msg)
                \<and> fst (handle_message_stream w a message kwargs)
                    = [''[RemoteAgent error: '' @ msg @ '']'']))
   \<and> (\<forall>r lines e rest.
         http_post w (session a) (stream_endpoint a) (request_data message kwargs) True
             [(''Accept'', ''text/event-stream'')] = Inr r
         \<longrightarrow> raise_for_status r = Inr ()
         \<longrightarrow> iter_lines r = map Inr lines @ Inl e # rest
         \<longrightarrow> (\<forall>l \<in> set lines. classify w l \<noteq> Unexpected)
         \<longrightarrow> fst (handle_message_stream w a message kwargs)
               = concat (map (\<lambda>l. chunks_of (classify w l)) lines)
                 @ [''[RemoteAgent error: '' @ str_exn e @ '']''])"
  (is "?A \<and> ?B \<and> ?C \<and> ?D \<and> ?E \<and> ?F")
proof -
  have A: ?A
    by (cases "handle_message_stream_try w a message kwargs")
       (auto simp: handle_message_stream_def split: option.splits)
  have B: ?B by (simp add: handle_message_stream_def)
  have C: ?C by (simp add: handle_message_stream_def)
  have D: ?D
    by (simp add: handle_message_stream_def handle_message_stream_try_def error_message_def)
  have E: ?E
    by (auto simp: handle_message_stream_def handle_message_stream_try_def error_message_def
          raise_for_status_def)
  have F: ?F
  proof (intro allI impI)
    fix r lines e rest
    assume p: "http_post w (session a) (stream_endpoint a) (request_data message kwargs) True
             [(''Accept'', ''text/event-stream'')] = Inr r"
      and ok: "raise_for_status r = Inr ()"
      and it: "iter_lines r = map Inr lines @ Inl e # rest"
      and wf: "\<forall>l \<in> set lines. classify w l \<noteq> Unexpected"
    have "stream_loop w (iter_lines r) [] [] =
            (concat (map (\<lambda>l. chunks_of (classify w l)) lines), Inl e,
             concat (map (\<lambda>l. entries_of (classify w l)) lines))"
      using stream_loop_classified_append [OF wf, of "Inl e # rest" "[]"] it by simp
    from handle_message_stream_opened [OF p ok this]
    show "fst (handle_message_stream w a message kwargs)
               = concat (map (\<lambda>l. chunks_of (classify w l)) lines)
                 @ [''[RemoteAgent error: '' @ str_exn e @ '']'']"
      by (simp add: error_message_def)
  qed
  from A B C D E F show ?thesis by blast
qed

text \<open>
  A refused connection, a connection that breaks after the first content fragment, and
  a payload (the JSON number 5) on which the membership test raises.
\<close>

theorem handle_message_stream_never_raises_witness:
  \<open>fst (handle_message_stream
          (sample_world (Inl (OtherException ''Connection refused'')))
          (sample_agent []) ''hi'' [])
     = [''[RemoteAgent error: Connection refused]'']
   \<and> fst (handle_message_stream
          (sample_world (Inr (sample_response 200 ''OK'' (Inl (JSONDecodeError ''no body''))
             [Inr ''data: {"content":"Hello"}'', Inl (OtherException ''Connection broken''),
              Inr ''data: {"content":"world"}''])))
          (sample_agent []) ''hi'' [])
     = [''Hello '', ''[RemoteAgent error: Connection broken]'']
   \<and> fst (handle_message_stream
          (sample_world (Inr (sample_response 200 ''OK'' (Inl (JSONDecodeError ''no body''))
             [Inr ''data: {"content":"Hello"}'', Inr ''data: 5'',
              Inr ''data: {"content":"world"}''])))
          (sample_agent []) ''hi'' [])
     = [''Hello '', ''[RemoteAgent error: argument of type 'int' is not iterable]'']\<close>
proof -
  let ?r = \<open>sample_response 200 ''OK'' (Inl (JSONDecodeError ''no body''))
             [Inr ''data: {"content":"Hello"}'', Inl (OtherException ''Connection broken''),
              Inr ''data: {"content":"world"}'']\<close>
  have \<open>fst (handle_message_stream (sample_world (Inl (OtherException ''Connection refused'')))
          (sample_agent []) ''hi'' [])
        = [''[RemoteAgent error: '' @ str_exn (OtherException ''Connection refused'') @ '']'']\<close>
    by (rule handle_message_stream_never_raises
          [of "sample_world (Inl (OtherException ''Connection refused''))" "sample_agent []"
              "''hi''" "[]",
           THEN conjunct2, THEN conjunct2, THEN conjunct2, THEN conjunct1, rule_format])
       (simp add: sample_world_simps)
  moreover
  have \<open>fst (handle_message_stream (sample_world (Inr ?r)) (sample_agent []) ''hi'' [])
        = concat (map (\<lambda>l. chunks_of (classify (sample_world (Inr ?r)) l))
                   [''data: {"content":"Hello"}''])
          @ [''[RemoteAgent error: '' @ str_exn (OtherException ''Connection broken'') @ '']'']\<close>
    by (rule handle_message_stream_never_raises
          [of "sample_world (Inr ?r)" "sample_agent []" "''hi''" "[]",
           THEN conjunct2, THEN conjunct2, THEN conjunct2, THEN conjunct2, THEN conjunct2,
           rule_format,
           of ?r _ _ \<open>[Inr ''data: {"content":"world"}'']\<close>])
       (simp_all add: sample_world_simps sample_response_simps sample_classify)
  moreover
  let ?r5 = \<open>sample_response 200 ''OK'' (Inl (JSONDecodeError ''no body''))
             [Inr ''data: {"content":"Hello"}'', Inr ''data: 5'',
              Inr ''data: {"content":"world"}'']\<close>
  have \<open>handle_message_stream (sample_world (Inr ?r5)) (sample_agent []) ''hi'' []
        = ([''Hello ''] @ [error_message (TypeError ''argument of type 'int' is not iterable'')],
           None, sample_agent [])\<close>
    by (rule handle_message_stream_never_raises
          [of "sample_world (Inr ?r5)" "sample_agent []" "''hi''" "[]",
           THEN conjunct2, THEN conjunct1, rule_format])
       (simp add: handle_message_stream_try_def sample_world_simps sample_response_simps
          process_chunk_def startswith_def strip_def isspace_def sample_loads_simps quoted_def
          sample_agent_def)
  ultimately show ?thesis by (simp add: sample_classify error_message_def)
qed

subsection \<open>Resetting the call log\<close>

text \<open>
  C7, as the code has it. Once the streaming request has been answered with a
  non-error status, the call log is reset before the first line is read: whatever the
  log held before the call, afterwards it is what the loop collects starting from the
  empty log. For a stream of well-formed lines that is exactly the entries of its
  tool-call fragments, in order. When the request itself fails, by an exception of the
  transport or by an HTTP error status, the agent and its log are left as they were.
\<close>

theorem handle_message_stream_resets_log:
  "(\<forall>r. http_post w (session a) (stream_endpoint a) (request_data message kwargs) True
             [(''Accept'', ''text/event-stream'')] = Inr r
        \<longrightarrow> raise_for_status r = Inr ()
        \<longrightarrow> tool_call_logs (snd (snd (handle_message_stream w (a\<lparr>tool_call_logs := old\<rparr>)
                                         message kwargs)))
              = snd (snd (stream_loop w (iter_lines r) [] []))
            \<and> (\<forall>lines. iter_lines r = map Inr lines
                  \<longrightarrow> (\<forall>l \<in> set lines. classify w l \<noteq> Unexpected)
                  \<longrightarrow> tool_call_logs (snd (snd (handle_message_stream w
                                                   (a\<lparr>tool_call_logs := old\<rparr>) message kwargs)))
                        = concat (map (\<lambda>l. entries_of (classify w l)) lines)))
   \<and> (\<forall>e. http_post w (session a) (stream_endpoint a) (request_data message kwargs) True
             [(''Accept'', ''text/event-stream'')] = Inl e
        \<longrightarrow> snd (snd (handle_message_stream w (a\<lparr>tool_call_logs := old\<rparr>) message kwargs))
              = a\<lparr>tool_call_logs := old\<rparr>)
   \<and> (\<forall>r. http_post w (session a) (stream_endpoint a) (request_data message kwargs) True
             [(''Accept'', ''text/event-stream'')] = Inr r
        \<longrightarrow> 400 \<le> status_code r \<and> status_code r < 600
        \<longrightarrow> snd (snd (handle_message_stream w (a\<lparr>tool_call_logs := old\<rparr>) message kwargs))
              = a\<lparr>tool_call_logs := old\<rparr>)"
  (is "?A \<and> ?B \<and> ?C")
proof -
  let ?a = "a\<lparr>tool_call_logs := old\<rparr>"
  have same: "http_post w (session ?a) (stream_endpoint ?a) (request_data message kwargs) True
             [(''Accept'', ''text/event-stream'')]
       = http_post w (session a) (stream_endpoint a) (request_data message kwargs) True
             [(''Accept'', ''text/event-stream'')]"
    by (simp add: stream_endpoint_def)
  have A: ?A
  proof (intro allI impI)
    fix r
    assume post: "http_post w (session a) (stream_endpoint a) (request_data message kwargs) True
             [(''Accept'', ''text/event-stream'')] = Inr r"
      and ok: "raise_for_status r = Inr ()"
    have p: "http_post w (session ?a) (stream_endpoint ?a) (request_data message kwargs) True
             [(''Accept'', ''text/event-stream'')] = Inr r"
      using post same by simp
    obtain chunks res logs where s: "stream_loop w (iter_lines r) [] [] = (chunks, res, logs)"
      by (cases "stream_loop w (iter_lines r) [] []") auto
    from handle_message_stream_opened [OF p ok s]
    have 1: "tool_call_logs (snd (snd (handle_message_stream w ?a message kwargs)))
               = snd (snd (stream_loop w (iter_lines r) [] []))"
      using s by (simp split: sum.splits)
    have 2: "\<forall>lines. iter_lines r = map Inr lines
                 \<longrightarrow> (\<forall>l \<in> set lines. classify w l \<noteq> Unexpected)
                 \<longrightarrow> tool_call_logs (snd (snd (handle_message_stream w ?a message kwargs)))
                       = concat (map (\<lambda>l. entries_of (classify w l)) lines)"
    proof (intro allI impI)
      fix lines
      assume "iter_lines r = map Inr lines" and "\<forall>l \<in> set lines. classify w l \<noteq> Unexpected"
      from handle_message_stream_classified [OF p ok this]
      show "tool_call_logs (snd (snd (handle_message_stream w ?a message kwargs)))
                       = concat (map (\<lambda>l. entries_of (classify w l)) lines)"
        by simp
    qed
    from 1 2 show "tool_call_logs (snd (snd (handle_message_stream w ?a message kwargs)))
              = snd (snd (stream_loop w (iter_lines r) [] []))
            \<and> (\<forall>lines. iter_lines r = map Inr lines
                  \<longrightarrow> (\<forall>l \<in> set lines. classify w l \<noteq> Unexpected)
                  \<longrightarrow> tool_call_logs (snd (snd (handle_message_stream w ?a message kwargs)))
                        = concat (map (\<lambda>l. entries_of (classify w l)) lines))"
      by blast
  qed
  have B: ?B
  proof (intro allI impI)
    fix e
    assume "http_post w (session a) (stream_endpoint a) (request_data message kwargs) True
             [(''Accept'', ''text/event-stream'')] = Inl e"
    with same show "snd (snd (handle_message_stream w ?a message kwargs)) = ?a"
      by (simp add: handle_message_stream_def handle_message_stream_try_def)
  qed
  have C: ?C
  proof (intro allI impI)
    fix r
    assume "http_post w (session a) (stream_endpoint a) (request_data message kwargs) True
             [(''Accept'', ''text/event-stream'')] = Inr r"
      and "400 \<le> status_code r \<and> status_code r < 600"
    with same show "snd (snd (handle_message_stream w ?a message kwargs)) = ?a"
      by (auto simp add: handle_message_stream_def handle_message_stream_try_def
            raise_for_status_def)
  qed
  from A B C show ?thesis by blast
qed

text \<open>
  Two earlier entries are gone after a stream with one tool-call fragment; they are
  still there after a refused connection and after a 503 answer.
\<close>

theorem handle_message_stream_resets_log_witness:
  \<open>tool_call_logs (snd (snd (handle_message_stream
      (sample_world (Inr (sample_response 200 ''OK'' (Inl (JSONDecodeError ''no body''))
         [Inr ''event: ping'', Inr ''data: {"content":"Hello"}'',
          Inr ''data: {"tool_calls":[{"id":"1"}]}'', Inr ''data: done''])))
      (sample_agent [sample_entry, sample_entry]) ''hi'' [])))
     = [PDict [(''id'', PStr ''1'')]]
   \<and> snd (snd (handle_message_stream
      (sample_world (Inl (OtherException ''Connection refused'')))
      (sample_agent [sample_entry, sample_entry]) ''hi'' []))
     = sample_agent [sample_entry, sample_entry]
   \<and> snd (snd (handle_message_stream
      (sample_world (Inr (sample_response 503 ''Service Unavailable''
         (Inl (JSONDecodeError ''no body'')) [Inr ''data: {"tool_calls":[{"id":"1"}]}''])))
      (sample_agent [sample_entry, sample_entry]) ''hi'' []))
     = sample_agent [sample_entry, sample_entry]\<close>
proof -
  let ?r = \<open>sample_response 200 ''OK'' (Inl (JSONDecodeError ''no body''))
         [Inr ''event: ping'', Inr ''data: {"content":"Hello"}'',
          Inr ''data: {"tool_calls":[{"id":"1"}]}'', Inr ''data: done'']\<close>
  let ?lines = \<open>[''event: ping'', ''data: {"content":"Hello"}'',
          ''data: {"tool_calls":[{"id":"1"}]}'', ''data: done'']\<close>
  let ?r503 = \<open>sample_response 503 ''Service Unavailable''
         (Inl (JSONDecodeError ''no body'')) [Inr ''data: {"tool_calls":[{"id":"1"}]}'']\<close>
  let ?old = "[sample_entry, sample_entry]"
  have \<open>tool_call_logs (snd (snd (handle_message_stream (sample_world (Inr ?r))
            ((sample_agent [])\<lparr>tool_call_logs := ?old\<rparr>) ''hi'' [])))
        = concat (map (\<lambda>l. entries_of (classify (sample_world (Inr ?r)) l)) ?lines)\<close>
    by (rule handle_message_stream_resets_log
          [of "sample_world (Inr ?r)" "sample_agent []" "''hi''" "[]" ?old,
           THEN conjunct1, rule_format, of ?r, THEN conjunct2, rule_format, of ?lines])
       (auto simp add: sample_world_simps sample_response_simps sample_classify)
  moreover
  have \<open>snd (snd (handle_message_stream (sample_world (Inl (OtherException ''Connection refused'')))
            ((sample_agent [])\<lparr>tool_call_logs := ?old\<rparr>) ''hi'' []))
        = (sample_agent [])\<lparr>tool_call_logs := ?old\<rparr>\<close>
    by (rule handle_message_stream_resets_log
          [of "sample_world (Inl (OtherException ''Connection refused''))" "sample_agent []"
              "''hi''" "[]" ?old,
           THEN conjunct2, THEN conjunct1, rule_format])
       (simp add: sample_world_simps)
  moreover
  have \<open>snd (snd (handle_message_stream (sample_world (Inr ?r503))
            ((sample_agent [])\<lparr>tool_call_logs := ?old\<rparr>) ''hi'' []))
        = (sample_agent [])\<lparr>tool_call_logs := ?old\<rparr>\<close>
    by (rule handle_message_stream_resets_log
          [of "sample_world (Inr ?r503)" "sample_agent []" "''hi''" "[]" ?old,
           THEN conjunct2, THEN conjunct2, rule_format, of ?r503])
       (simp_all add: sample_world_simps sample_response_simps)
  ultimately show ?thesis by (simp add: sample_classify sample_agent_def)
qed

text \<open>
  When the request fails, the log is not reset: the earlier entry is still there after
  the call.
\<close>

theorem handle_message_stream_stale_log_counterexample:
  "handle_message_stream
      (sample_world (Inl (OtherException ''Connection refused'')))
      (sample_agent [sample_entry]) ''hi'' []
     = ([''[RemoteAgent error: Connection refused]''], None, sample_agent [sample_entry])
   \<and> tool_call_logs (sample_agent [sample_entry]) \<noteq> []"
  by (simp add: handle_message_stream_def handle_message_stream_try_def sample_world_simps
        error_message_def sample_agent_def)

section \<open>Tool-call dispatch\<close>






text \<open>
  A tool that is not in the registry. Given a descriptor whose \<^verbatim>\<open>function\<close> entry names
  a tool and carries its arguments as a string (or not at all), a registry without that
  tool (or no registry), and an argument string on which \<^verbatim>\<open>json.loads\<close> either
  succeeds or raises \<^verbatim>\<open>JSONDecodeError\<close>, \<^verbatim>\<open>handle_tool_call\<close> returns the
  placeholder naming the tool and appends one record whose destination is the name and
  whose response is the placeholder; called a second time with the same descriptor it
  returns the same placeholder and appends an identical record.
\<close>

lemma handle_tool_call_tool_not_found:
  assumes "map_of tool_call ''function'' = Some (PDict fd)"
    and "map_of fd ''name'' = Some (PStr name)"
    and "map_of fd ''arguments'' = None \<or> (\<exists>s. map_of fd ''arguments'' = Some (PStr s))"
    and "tool_registry a = None
         \<or> (\<exists>registry. tool_registry a = Some registry \<and> registry (PStr name) = None)"
    and "\<forall>s e. py_get (PDict fd) ''arguments'' (PStr ''{}'') = Inr (PStr s)
           \<longrightarrow> json_loads w s = Inl e \<longrightarrow> (\<exists>msg. e = JSONDecodeError msg)"
  shows "\<exists>args entry.
           entry = tool_call_record w a (PStr name) args
                     (PStr (''[Tool '' @ quoted name @ '' not found]''))
         \<and> record_field ''Tool_call_Destination'' entry = Some (PStr name)
         \<and> record_field ''Tool_call_Response'' entry
               = Some (PStr (''[Tool '' @ quoted name @ '' not found]''))
         \<and> handle_tool_call w a tool_call =
              (Inr (PStr (''[Tool '' @ quoted name @ '' not found]'')),
               a\<lparr>tool_call_logs := tool_call_logs a @ [entry]\<rparr>)
         \<and> handle_tool_call w (a\<lparr>tool_call_logs := tool_call_logs a @ [entry]\<rparr>) tool_call =
              (Inr (PStr (''[Tool '' @ quoted name @ '' not found]'')),
               a\<lparr>tool_call_logs := tool_call_logs a @ [entry, entry]\<rparr>)"
proof -
  obtain arguments where arguments:
    "py_get (PDict fd) ''arguments'' (PStr ''{}'') = Inr (PStr arguments)"
    using assms(3) by auto
  define args where "args = (case json_loads w arguments of Inl e \<Rightarrow> PDict [] | Inr v \<Rightarrow> v)"
  have parsed: "(case json_loads_value w (PStr arguments) of
                   Inl (JSONDecodeError msg) \<Rightarrow> Inr (PDict [])
                 | Inl e \<Rightarrow> Inl e
                 | Inr v \<Rightarrow> Inr v) = Inr args"
  proof (cases "json_loads w arguments")
    case (Inl e)
    with assms(5) arguments obtain msg where "e = JSONDecodeError msg" by blast
    with Inl show ?thesis by (simp add: json_loads_value_def args_def)
  next
    case (Inr v)
    then show ?thesis by (simp add: json_loads_value_def args_def)
  qed
  define entry where "entry = tool_call_record w a (PStr name) args
                     (PStr (''[Tool '' @ quoted name @ '' not found]''))"
  have call: "handle_tool_call w b tool_call =
              (Inr (PStr (''[Tool '' @ quoted name @ '' not found]'')),
               b\<lparr>tool_call_logs := tool_call_logs b @ [entry]\<rparr>)"
    if "tool_registry b = tool_registry a" and "agent_name b = agent_name a" for b
    using assms(1,2,4) arguments that
    by (auto simp add: handle_tool_call_def parsed call_info_def tool_not_found_def py_str_def
          entry_def tool_call_record_def Let_def split: option.splits)
  have "handle_tool_call w a tool_call =
              (Inr (PStr (''[Tool '' @ quoted name @ '' not found]'')),
               a\<lparr>tool_call_logs := tool_call_logs a @ [entry]\<rparr>)"
    by (rule call) simp_all
  moreover have "handle_tool_call w (a\<lparr>tool_call_logs := tool_call_logs a @ [entry]\<rparr>) tool_call =
              (Inr (PStr (''[Tool '' @ quoted name @ '' not found]'')),
               a\<lparr>tool_call_logs := tool_call_logs a @ [entry, entry]\<rparr>)"
    using call [of "a\<lparr>tool_call_logs := tool_call_logs a @ [entry]\<rparr>"] by simp
  moreover have "record_field ''Tool_call_Destination'' entry = Some (PStr name)"
    and "record_field ''Tool_call_Response'' entry
               = Some (PStr (''[Tool '' @ quoted name @ '' not found]''))"
    by (simp_all add: entry_def tool_call_record_def record_field_def)
  ultimately show ?thesis using entry_def by blast
qed

text \<open>
  Two calls for the tool \<^verbatim>\<open>Xyz\<close>, which the sample registry does not have.
\<close>

lemma handle_tool_call_tool_not_found_twice:
  \<open>handle_tool_call (sample_world (Inl (OtherException ''unused''))) (sample_agent [])
      (sample_tool_call ''Xyz'' ''{}'')
     = (Inr (PStr ''[Tool 'Xyz' not found]''),
        sample_agent [PDict [(''Tool_call_source'', PStr ''joke_agent''),
                             (''Tool_call_Destination'', PStr ''Xyz''),
                             (''Tool_call_Arguments'', PStr ''{}''),
                             (''Tool_call_Response'', PStr ''[Tool 'Xyz' not found]'')]])
   \<and> tool_call_logs (snd (handle_tool_call (sample_world (Inl (OtherException ''unused'')))
        (snd (handle_tool_call (sample_world (Inl (OtherException ''unused''))) (sample_agent [])
                (sample_tool_call ''Xyz'' ''{}'')))
        (sample_tool_call ''Xyz'' ''{}'')))
     = [PDict [(''Tool_call_source'', PStr ''joke_agent''),
               (''Tool_call_Destination'', PStr ''Xyz''),
               (''Tool_call_Arguments'', PStr ''{}''),
               (''Tool_call_Response'', PStr ''[Tool 'Xyz' not found]'')],
        PDict [(''Tool_call_source'', PStr ''joke_agent''),
               (''Tool_call_Destination'', PStr ''Xyz''),
               (''Tool_call_Arguments'', PStr ''{}''),
               (''Tool_call_Response'', PStr ''[Tool 'Xyz' not found]'')]]\<close>
proof -
  let ?w = "sample_world (Inl (OtherException ''unused''))"
  have "\<exists>args entry.
           entry = tool_call_record ?w (sample_agent []) (PStr ''Xyz'') args
                     (PStr (''[Tool '' @ quoted ''Xyz'' @ '' not found]''))
         \<and> record_field ''Tool_call_Destination'' entry = Some (PStr ''Xyz'')
         \<and> record_field ''Tool_call_Response'' entry
               = Some (PStr (''[Tool '' @ quoted ''Xyz'' @ '' not found]''))
         \<and> handle_tool_call ?w (sample_agent []) (sample_tool_call ''Xyz'' ''{}'') =
              (Inr (PStr (''[Tool '' @ quoted ''Xyz'' @ '' not found]'')),
               (sample_agent [])\<lparr>tool_call_logs := tool_call_logs (sample_agent []) @ [entry]\<rparr>)
         \<and> handle_tool_call ?w ((sample_agent [])\<lparr>tool_call_logs :=
                 tool_call_logs (sample_agent []) @ [entry]\<rparr>) (sample_tool_call ''Xyz'' ''{}'') =
              (Inr (PStr (''[Tool '' @ quoted ''Xyz'' @ '' not found]'')),
               (sample_agent [])\<lparr>tool_call_logs := tool_call_logs (sample_agent []) @ [entry, entry]\<rparr>)"
    by (rule handle_tool_call_tool_not_found
          [of "sample_tool_call ''Xyz'' ''{}''"
              "[(''name'', PStr ''Xyz''), (''arguments'', PStr ''{}'')]" "''Xyz''"
              "sample_agent []" ?w])
       (auto simp add: sample_tool_call_def sample_agent_def sample_registry_def
          sample_world_simps sample_loads_simps)
  then obtain entry where
    1: "handle_tool_call ?w (sample_agent []) (sample_tool_call ''Xyz'' ''{}'') =
              (Inr (PStr (''[Tool '' @ quoted ''Xyz'' @ '' not found]'')),
               (sample_agent [])\<lparr>tool_call_logs := tool_call_logs (sample_agent []) @ [entry]\<rparr>)"
    and 2: "handle_tool_call ?w ((sample_agent [])\<lparr>tool_call_logs :=
                 tool_call_logs (sample_agent []) @ [entry]\<rparr>) (sample_tool_call ''Xyz'' ''{}'') =
              (Inr (PStr (''[Tool '' @ quoted ''Xyz'' @ '' not found]'')),
               (sample_agent [])\<lparr>tool_call_logs := tool_call_logs (sample_agent []) @ [entry, entry]\<rparr>)"
    by blast
  have 3: \<open>handle_tool_call ?w (sample_agent []) (sample_tool_call ''Xyz'' ''{}'')
     = (Inr (PStr ''[Tool 'Xyz' not found]''),
        sample_agent [PDict [(''Tool_call_source'', PStr ''joke_agent''),
                             (''Tool_call_Destination'', PStr ''Xyz''),
                             (''Tool_call_Arguments'', PStr ''{}''),
                             (''Tool_call_Response'', PStr ''[Tool 'Xyz' not found]'')]])\<close>
    by (simp add: handle_tool_call_def sample_tool_call_def sample_agent_def sample_registry_def
        json_loads_value_def sample_world_simps sample_loads_simps call_info_def
        sample_dumps_def tool_not_found_def py_str_def quoted_def Let_def)
  from 1 3 have \<open>entry = PDict [(''Tool_call_source'', PStr ''joke_agent''),
                             (''Tool_call_Destination'', PStr ''Xyz''),
                             (''Tool_call_Arguments'', PStr ''{}''),
                             (''Tool_call_Response'', PStr ''[Tool 'Xyz' not found]'')]\<close>
    by (simp add: sample_agent_def)
  with 1 2 3 show ?thesis by (simp add: sample_agent_def)
qed

text \<open>
  C9. The descriptor names the tool \<^verbatim>\<open>Xyz\<close>, which the registry does not have, and
  carries as arguments an integer literal of 4301 digits. \<^verbatim>\<open>json.loads\<close> raises
  \<^verbatim>\<open>ValueError\<close> on it, which the clause \<^verbatim>\<open>except json.JSONDecodeError\<close> does not
  catch: \<^verbatim>\<open>handle_tool_call\<close> raises instead of returning the placeholder, and no
  record is appended.
\<close>

theorem handle_tool_call_digit_limit:
  "handle_tool_call (sample_world (Inl (OtherException ''unused''))) (sample_agent [])
      (sample_tool_call ''Xyz'' (replicate 4301 CHR ''1''))
     = (Inl (ValueError (''Exceeds the limit (4300 digits) for integer string conversion: ''
                         @ ''value has 4301 digits; ''
                         @ ''use sys.set_int_max_str_digits() to increase the limit'')),
        sample_agent [])"
  by (simp add: handle_tool_call_def sample_tool_call_def json_loads_value_def
        sample_world_simps sample_loads_def list_all_iff show_nat_4301)

end
